theory Spec2Isabelle
  imports Main
begin

section \<open>Data model of script.js\<close>

text \<open>
  The simulator keeps its threads as JavaScript objects that are shared by reference
  between the engine's thread list, the ready and blocked queues, the cores, and the
  queues of the semaphores and monitors.  A reference is modelled as a natural number
  and the objects live in a store, a total function from references to thread records
  (a JavaScript reference always designates an object).  Semaphores, monitors and
  cores are referred to from one place only (the registry entry, the core array), so
  they are records held there by value.  Numbers are modelled as unbounded integers
  and naturals; the event log, which the engine only appends to and never reads, is
  left out, and so is the formatting of the default thread name.
\<close>

type_synonym tref = nat

datatype thread_state = NEW | READY | RUNNING | BLOCKED | TERMINATED

text \<open>
  An instruction object \<open>{type, resource}\<close>.  \<open>OtherInstruction\<close> stands for a
  \<open>type\<close> that none of the cases of the \<open>switch\<close> in \<open>executeInstruction\<close> matches.
  Every element of an instruction sequence is an object, so the test of
  \<open>result.instruction\<close> in \<open>tick\<close> succeeds whenever \<open>execute\<close> returns one.
\<close>

datatype instruction =
    Compute
  | Wait string
  | Signal string
  | EnterMonitor string
  | ExitMonitor string
  | MonitorWait string
  | MonitorSignal string
  | OtherInstruction

record thread =
  thread_id :: nat
  thread_name :: string
  priority :: int
  state :: thread_state
  instructions :: "instruction list"
  currentInstruction :: nat
  arrivalTime :: nat
  burstTime :: nat
  remainingTime :: int
  waitTime :: nat
  turnaroundTime :: int
  completionTime :: nat
  timeInCurrentState :: nat
  quantum :: int
  kernelThreadId :: "nat option"

record semaphore =
  sem_name :: string
  sem_value :: int
  waitQueue :: "tref list"

record monitor =
  mon_name :: string
  owner :: "tref option"
  entryQueue :: "tref list"
  conditionQueue :: "tref list"

record cpucore =
  core_id :: nat
  currentThread :: "tref option"
  isIdle :: bool
  totalBusyTime :: nat

datatype algorithm = FCFS | Priority | RoundRobin | OtherAlgorithm

datatype threading_model = OneToOne | ManyToOne | ManyToMany | OtherModel

record scheduler =
  algorithm :: algorithm
  timeQuantum :: int

text \<open>
  The engine.  \<open>nextId\<close> is the static counter \<open>Thread.nextId\<close>, which
  \<open>reset\<close> sets back to 1.
\<close>

record engine =
  store :: "tref \<Rightarrow> thread"
  nextId :: nat
  threads :: "tref list"
  readyQueue :: "tref list"
  blockedQueue :: "tref list"
  terminatedThreads :: "tref list"
  cpuCores :: "cpucore list"
  semaphores :: "string \<rightharpoonup> semaphore"
  monitors :: "string \<rightharpoonup> monitor"
  scheduler :: scheduler
  clockTick :: nat
  isRunning :: bool
  threadingModel :: threading_model
  userThreadCount :: nat
  kernelThreadCount :: nat

datatype error = TypeError

section \<open>class Thread\<close>

text \<open>The constructor, given the value of \<open>Thread.nextId\<close> and the final name.\<close>

definition Thread_new :: "nat \<Rightarrow> string \<Rightarrow> int \<Rightarrow> instruction list \<Rightarrow> thread" where
  "Thread_new i n p ins =
     \<lparr> thread_id = i, thread_name = n, priority = p, state = NEW, instructions = ins,
       currentInstruction = 0, arrivalTime = 0, burstTime = length ins,
       remainingTime = int (length ins), waitTime = 0, turnaroundTime = 0,
       completionTime = 0, timeInCurrentState = 0, quantum = 0, kernelThreadId = None \<rparr>"

text \<open>\<open>execute\<close>: \<open>None\<close> is the result \<open>{done: true}\<close>.\<close>

definition Thread_execute :: "thread \<Rightarrow> instruction option \<times> thread" where
  "Thread_execute th =
     (if currentInstruction th \<ge> length (instructions th) then (None, th)
      else (Some (instructions th ! currentInstruction th),
            th\<lparr> currentInstruction := currentInstruction th + 1,
                remainingTime := remainingTime th - 1,
                quantum := quantum th + 1 \<rparr>))"

definition Thread_isComplete :: "thread \<Rightarrow> bool" where
  "Thread_isComplete th \<longleftrightarrow> currentInstruction th \<ge> length (instructions th)"

definition Thread_setState :: "thread \<Rightarrow> thread_state \<Rightarrow> thread" where
  "Thread_setState th s = th\<lparr> state := s, timeInCurrentState := 0 \<rparr>"

definition Thread_tick :: "thread \<Rightarrow> thread" where
  "Thread_tick th =
     (let th1 = th\<lparr> timeInCurrentState := timeInCurrentState th + 1 \<rparr>
      in if state th1 = READY \<or> state th1 = BLOCKED
         then th1\<lparr> waitTime := waitTime th1 + 1 \<rparr> else th1)"

section \<open>class Semaphore\<close>

definition Semaphore_new :: "string \<Rightarrow> int \<Rightarrow> semaphore" where
  "Semaphore_new n v = \<lparr> sem_name = n, sem_value = v, waitQueue = [] \<rparr>"

definition Semaphore_wait :: "semaphore \<Rightarrow> tref \<Rightarrow> bool \<times> semaphore" where
  "Semaphore_wait s t =
     (let s1 = s\<lparr> sem_value := sem_value s - 1 \<rparr>
      in if sem_value s1 < 0 then (False, s1\<lparr> waitQueue := waitQueue s1 @ [t] \<rparr>)
         else (True, s1))"

definition Semaphore_signal :: "semaphore \<Rightarrow> tref option \<times> semaphore" where
  "Semaphore_signal s =
     (let s1 = s\<lparr> sem_value := sem_value s + 1 \<rparr>
      in case waitQueue s1 of
           [] \<Rightarrow> (None, s1)
         | t # q \<Rightarrow> (Some t, s1\<lparr> waitQueue := q \<rparr>))"

text \<open>A sequence of calls on one semaphore object.\<close>

datatype semaphore_call = CallWait tref | CallSignal

fun Semaphore_calls :: "semaphore_call list \<Rightarrow> semaphore \<Rightarrow> semaphore" where
  "Semaphore_calls [] s = s"
| "Semaphore_calls (CallWait t # cs) s = Semaphore_calls cs (snd (Semaphore_wait s t))"
| "Semaphore_calls (CallSignal # cs) s = Semaphore_calls cs (snd (Semaphore_signal s))"

definition Semaphore_inv :: "semaphore \<Rightarrow> bool" where
  "Semaphore_inv s \<longleftrightarrow> int (length (waitQueue s)) = max 0 (- sem_value s)"

section \<open>class Monitor\<close>

definition Monitor_new :: "string \<Rightarrow> monitor" where
  "Monitor_new n = \<lparr> mon_name = n, owner = None, entryQueue = [], conditionQueue = [] \<rparr>"

definition Monitor_enter :: "monitor \<Rightarrow> tref \<Rightarrow> bool \<times> monitor" where
  "Monitor_enter m t =
     (if owner m = None then (True, m\<lparr> owner := Some t \<rparr>)
      else (False, m\<lparr> entryQueue := entryQueue m @ [t] \<rparr>))"

text \<open>\<open>exit\<close> and \<open>wait\<close> return the pair of \<open>nextThread\<close> and the flag.\<close>

definition Monitor_exit :: "monitor \<Rightarrow> (tref option \<times> bool) \<times> monitor" where
  "Monitor_exit m =
     (let m1 = m\<lparr> owner := None \<rparr>
      in case conditionQueue m1 of
           t # q \<Rightarrow> ((Some t, True), m1\<lparr> conditionQueue := q, owner := Some t \<rparr>)
         | [] \<Rightarrow>
             (case entryQueue m1 of
                t # q \<Rightarrow> ((Some t, False), m1\<lparr> entryQueue := q, owner := Some t \<rparr>)
              | [] \<Rightarrow> ((None, False), m1)))"

definition Monitor_wait :: "monitor \<Rightarrow> tref \<Rightarrow> (tref option \<times> bool) \<times> monitor" where
  "Monitor_wait m t =
     (if owner m = Some t
      then let m1 = m\<lparr> conditionQueue := conditionQueue m @ [t], owner := None \<rparr>
           in case entryQueue m1 of
                u # q \<Rightarrow> ((Some u, True), m1\<lparr> entryQueue := q, owner := Some u \<rparr>)
              | [] \<Rightarrow> ((None, True), m1)
      else ((None, False), m))"

definition Monitor_signal :: "monitor \<Rightarrow> tref option \<times> monitor" where
  "Monitor_signal m =
     (case conditionQueue m of
        t # q \<Rightarrow> (Some t, m\<lparr> conditionQueue := q \<rparr>)
      | [] \<Rightarrow> (None, m))"

section \<open>class CPUCore\<close>

definition CPUCore_new :: "nat \<Rightarrow> cpucore" where
  "CPUCore_new i = \<lparr> core_id = i, currentThread = None, isIdle = True, totalBusyTime = 0 \<rparr>"

text \<open>\<open>assignThread\<close> also sets the state of the thread object, in the store.\<close>

definition CPUCore_assignThread ::
  "cpucore \<Rightarrow> tref \<Rightarrow> (tref \<Rightarrow> thread) \<Rightarrow> cpucore \<times> (tref \<Rightarrow> thread)" where
  "CPUCore_assignThread c t st =
     (c\<lparr> currentThread := Some t, isIdle := False \<rparr>, st(t := Thread_setState (st t) RUNNING))"

definition CPUCore_releaseThread :: "cpucore \<Rightarrow> tref option \<times> cpucore" where
  "CPUCore_releaseThread c = (currentThread c, c\<lparr> currentThread := None, isIdle := True \<rparr>)"

definition CPUCore_tick :: "cpucore \<Rightarrow> cpucore" where
  "CPUCore_tick c = (if \<not> isIdle c then c\<lparr> totalBusyTime := totalBusyTime c + 1 \<rparr> else c)"

section \<open>class Scheduler\<close>

text \<open>The scan of the \<open>priority\<close> case: the loop over \<open>i = 1, ..., length - 1\<close>.\<close>

definition highestPriorityIndex :: "(tref \<Rightarrow> thread) \<Rightarrow> tref list \<Rightarrow> nat" where
  "highestPriorityIndex st q =
     fold (\<lambda>i h. if priority (st (q ! i)) > priority (st (q ! h)) then i else h)
          [1 ..< length q] 0"

text \<open>
  \<open>selectNextThread\<close> returns the selected thread (\<open>None\<close> for \<open>null\<close>) and the ready
  queue as the call leaves it.
\<close>

definition Scheduler_selectNextThread ::
  "scheduler \<Rightarrow> (tref \<Rightarrow> thread) \<Rightarrow> tref list \<Rightarrow> tref option \<times> tref list" where
  "Scheduler_selectNextThread s st q =
     (if length q = 0 then (None, q)
      else case algorithm s of
             FCFS \<Rightarrow> (Some (hd q), tl q)
           | Priority \<Rightarrow>
               (let h = highestPriorityIndex st q
                in (Some (q ! h), take h q @ drop (Suc h) q))
           | RoundRobin \<Rightarrow> (Some (hd q), tl q)
           | OtherAlgorithm \<Rightarrow> (Some (hd q), tl q))"

definition Scheduler_shouldPreempt :: "scheduler \<Rightarrow> thread \<Rightarrow> bool" where
  "Scheduler_shouldPreempt s th =
     (if algorithm s = RoundRobin then quantum th \<ge> timeQuantum s else False)"

section \<open>class SimulationEngine\<close>

definition SimulationEngine_new :: "(tref \<Rightarrow> thread) \<Rightarrow> engine" where
  "SimulationEngine_new st =
     \<lparr> store = st, nextId = 1, threads = [], readyQueue = [], blockedQueue = [],
       terminatedThreads = [], cpuCores = [], semaphores = Map.empty, monitors = Map.empty,
       scheduler = \<lparr> algorithm = RoundRobin, timeQuantum = 3 \<rparr>, clockTick = 0,
       isRunning = False, threadingModel = OneToOne, userThreadCount = 0,
       kernelThreadCount = 0 \<rparr>"

definition reset :: "engine \<Rightarrow> engine" where
  "reset e =
     e\<lparr> threads := [], readyQueue := [], blockedQueue := [], terminatedThreads := [],
        cpuCores := [], semaphores := Map.empty, monitors := Map.empty, clockTick := 0,
        isRunning := False, userThreadCount := 0, kernelThreadCount := 0, nextId := 1 \<rparr>"

definition initialize :: "engine \<Rightarrow> nat \<Rightarrow> algorithm \<Rightarrow> int \<Rightarrow> threading_model \<Rightarrow> engine" where
  "initialize e numCores schedulingAlgo q model =
     (reset e)\<lparr> cpuCores := map CPUCore_new [0 ..< numCores],
                scheduler := \<lparr> algorithm = schedulingAlgo, timeQuantum = q \<rparr>,
                threadingModel := model \<rparr>"

text \<open>
  \<open>new Thread(name, priority, instructions)\<close>, the new object being placed at the
  reference \<open>r\<close>.
\<close>

definition newThread :: "engine \<Rightarrow> tref \<Rightarrow> string \<Rightarrow> int \<Rightarrow> instruction list \<Rightarrow> engine" where
  "newThread e r n p ins =
     e\<lparr> store := (store e)(r := Thread_new (nextId e) n p ins), nextId := nextId e + 1 \<rparr>"

text \<open>
  In the many-to-many case the remainder is taken by the number of cores, which is
  positive in a well-formed configuration.
\<close>

definition mapThreadToKernel :: "engine \<Rightarrow> tref \<Rightarrow> engine" where
  "mapThreadToKernel e t =
     (case threadingModel e of
        OneToOne \<Rightarrow>
          (let k = kernelThreadCount e + 1
           in e\<lparr> kernelThreadCount := k,
                 store := (store e)(t := (store e t)\<lparr> kernelThreadId := Some k \<rparr>) \<rparr>)
      | ManyToOne \<Rightarrow>
          e\<lparr> kernelThreadCount := (if kernelThreadCount e = 0 then 1 else kernelThreadCount e),
             store := (store e)(t := (store e t)\<lparr> kernelThreadId := Some 1 \<rparr>) \<rparr>
      | ManyToMany \<Rightarrow>
          (let k = userThreadCount e mod length (cpuCores e) + 1
           in e\<lparr> store := (store e)(t := (store e t)\<lparr> kernelThreadId := Some k \<rparr>),
                 kernelThreadCount := (if k > kernelThreadCount e then k else kernelThreadCount e) \<rparr>)
      | OtherModel \<Rightarrow> e)"

definition moveToReady :: "engine \<Rightarrow> tref \<Rightarrow> engine" where
  "moveToReady e t =
     e\<lparr> store := (store e)(t := Thread_setState (store e t) READY),
        readyQueue := readyQueue e @ [t] \<rparr>"

definition moveToBlocked :: "engine \<Rightarrow> tref \<Rightarrow> engine" where
  "moveToBlocked e t =
     e\<lparr> store := (store e)(t := Thread_setState (store e t) BLOCKED),
        blockedQueue := (if t \<in> set (blockedQueue e) then blockedQueue e
                         else blockedQueue e @ [t]) \<rparr>"

definition moveToTerminated :: "engine \<Rightarrow> tref \<Rightarrow> engine" where
  "moveToTerminated e t =
     e\<lparr> store := (store e)(t := (Thread_setState (store e t) TERMINATED)
                                  \<lparr> completionTime := clockTick e,
                                    turnaroundTime := int (clockTick e) - int (arrivalTime (store e t)) \<rparr>),
        terminatedThreads := terminatedThreads e @ [t] \<rparr>"

text \<open>
  \<open>addThread\<close>.  The callback it hands to \<open>setTimeout\<close> is \<open>addThread_timeout\<close>; when
  it runs is decided by the browser's timer, outside the engine.
\<close>

definition addThread :: "engine \<Rightarrow> tref \<Rightarrow> engine" where
  "addThread e t =
     (let e1 = e\<lparr> store := (store e)(t := (store e t)\<lparr> arrivalTime := clockTick e \<rparr>),
                  threads := threads e @ [t],
                  userThreadCount := userThreadCount e + 1 \<rparr>;
          e2 = mapThreadToKernel e1 t
      in e2\<lparr> store := (store e2)(t := Thread_setState (store e2 t) NEW) \<rparr>)"

definition addThread_timeout :: "engine \<Rightarrow> tref \<Rightarrow> engine" where
  "addThread_timeout e t = (if state (store e t) = NEW then moveToReady e t else e)"

definition addSemaphore :: "engine \<Rightarrow> string \<Rightarrow> int \<Rightarrow> engine" where
  "addSemaphore e n v = e\<lparr> semaphores := (semaphores e)(n \<mapsto> Semaphore_new n v) \<rparr>"

definition addMonitor :: "engine \<Rightarrow> string \<Rightarrow> engine" where
  "addMonitor e n = e\<lparr> monitors := (monitors e)(n \<mapsto> Monitor_new n) \<rparr>"

subsection \<open>executeInstruction\<close>

text \<open>
  \<open>cpuCores.find(c => c.currentThread === thread)\<close> followed by \<open>releaseThread\<close> on
  the core found, if any: the first core that holds the thread is released.
\<close>

fun releaseCoreOf :: "cpucore list \<Rightarrow> tref \<Rightarrow> cpucore list" where
  "releaseCoreOf [] t = []"
| "releaseCoreOf (c # cs) t =
     (if currentThread c = Some t then snd (CPUCore_releaseThread c) # cs
      else c # releaseCoreOf cs t)"

text \<open>The blocking path shared by \<open>wait\<close>, \<open>enter-monitor\<close> and \<open>monitor-wait\<close>.\<close>

definition blockRunning :: "engine \<Rightarrow> tref \<Rightarrow> engine" where
  "blockRunning e t = moveToBlocked (e\<lparr> cpuCores := releaseCoreOf (cpuCores e) t \<rparr>) t"

text \<open>
  The unblocking path shared by \<open>signal\<close>, \<open>exit-monitor\<close>, \<open>monitor-wait\<close> and
  \<open>monitor-signal\<close>: \<open>indexOf\<close> and \<open>splice\<close> remove the first occurrence from the
  blocked queue, then \<open>moveToReady\<close>.
\<close>

definition unblock :: "engine \<Rightarrow> tref \<Rightarrow> engine" where
  "unblock e u = moveToReady (e\<lparr> blockedQueue := remove1 u (blockedQueue e) \<rparr>) u"

definition executeInstruction :: "engine \<Rightarrow> tref \<Rightarrow> instruction \<Rightarrow> engine" where
  "executeInstruction e t ins =
     (case ins of
        Compute \<Rightarrow> e
      | Wait r \<Rightarrow>
          (case semaphores e r of
             None \<Rightarrow> e
           | Some s \<Rightarrow>
               (let (ok, s1) = Semaphore_wait s t;
                    e1 = e\<lparr> semaphores := (semaphores e)(r \<mapsto> s1) \<rparr>
                in if \<not> ok then blockRunning e1 t else e1))
      | Signal r \<Rightarrow>
          (case semaphores e r of
             None \<Rightarrow> e
           | Some s \<Rightarrow>
               (let (unblocked, s1) = Semaphore_signal s;
                    e1 = e\<lparr> semaphores := (semaphores e)(r \<mapsto> s1) \<rparr>
                in case unblocked of None \<Rightarrow> e1 | Some u \<Rightarrow> unblock e1 u))
      | EnterMonitor r \<Rightarrow>
          (case monitors e r of
             None \<Rightarrow> e
           | Some m \<Rightarrow>
               (let (ok, m1) = Monitor_enter m t;
                    e1 = e\<lparr> monitors := (monitors e)(r \<mapsto> m1) \<rparr>
                in if \<not> ok then blockRunning e1 t else e1))
      | ExitMonitor r \<Rightarrow>
          (case monitors e r of
             None \<Rightarrow> e
           | Some m \<Rightarrow>
               (let ((nextThread, wasWaiting), m1) = Monitor_exit m;
                    e1 = e\<lparr> monitors := (monitors e)(r \<mapsto> m1) \<rparr>
                in case nextThread of None \<Rightarrow> e1 | Some u \<Rightarrow> unblock e1 u))
      | MonitorWait r \<Rightarrow>
          (case monitors e r of
             None \<Rightarrow> e
           | Some m \<Rightarrow>
               (let ((nextThread, currentBlocked), m1) = Monitor_wait m t;
                    e1 = e\<lparr> monitors := (monitors e)(r \<mapsto> m1) \<rparr>;
                    e2 = (if currentBlocked then blockRunning e1 t else e1)
                in case nextThread of None \<Rightarrow> e2 | Some u \<Rightarrow> unblock e2 u))
      | MonitorSignal r \<Rightarrow>
          (case monitors e r of
             None \<Rightarrow> e
           | Some m \<Rightarrow>
               (let (unblocked, m1) = Monitor_signal m;
                    e1 = e\<lparr> monitors := (monitors e)(r \<mapsto> m1) \<rparr>
                in case unblocked of None \<Rightarrow> e1 | Some u \<Rightarrow> unblock e1 u))
      | OtherInstruction \<Rightarrow> e)"

subsection \<open>tick\<close>

text \<open>
  A call that throws is the value \<open>Inl (error, engine)\<close>, with the engine as the
  exception leaves it; a call that returns is \<open>Inr engine\<close>.
\<close>

type_synonym outcome = "(error \<times> engine) + engine"

definition releaseCoreAt :: "engine \<Rightarrow> nat \<Rightarrow> engine" where
  "releaseCoreAt e i =
     e\<lparr> cpuCores := (cpuCores e)[i := snd (CPUCore_releaseThread (cpuCores e ! i))] \<rparr>"

text \<open>
  The part of the first loop's body up to and including \<open>executeInstruction\<close>, for the
  busy core \<open>i\<close> whose thread is \<open>t\<close>; the flag is \<open>result.done\<close>.
\<close>

definition runInstruction :: "engine \<Rightarrow> tref \<Rightarrow> bool \<times> engine" where
  "runInstruction e t =
     (let (result, th) = Thread_execute (store e t);
          e1 = e\<lparr> store := (store e)(t := th) \<rparr>
      in case result of
           None \<Rightarrow> (True, e1)
         | Some ins \<Rightarrow> (False, executeInstruction e1 t ins))"

text \<open>
  The rest of the body: termination, or preemption, or nothing.  In the preemption
  branch \<open>core.releaseThread()\<close> returns the core's current thread, and the
  assignment \<open>preemptedThread.quantum = 0\<close> throws when that is \<open>null\<close>.
\<close>

definition afterInstruction :: "engine \<Rightarrow> nat \<Rightarrow> tref \<Rightarrow> bool \<Rightarrow> outcome" where
  "afterInstruction e i t done =
     (if done \<or> Thread_isComplete (store e t)
      then Inr (moveToTerminated (releaseCoreAt e i) t)
      else if Scheduler_shouldPreempt (scheduler e) (store e t)
      then (let (preempted, c) = CPUCore_releaseThread (cpuCores e ! i);
                e1 = e\<lparr> cpuCores := (cpuCores e)[i := c] \<rparr>
            in case preempted of
                 None \<Rightarrow> Inl (TypeError, e1)
               | Some p \<Rightarrow>
                   Inr (moveToReady (e1\<lparr> store := (store e1)(p := (store e1 p)\<lparr> quantum := 0 \<rparr>) \<rparr>) p))
      else Inr e)"

text \<open>The body of the first \<open>cpuCores.forEach\<close>, for the core at index \<open>i\<close>.\<close>

definition coreStep :: "engine \<Rightarrow> nat \<Rightarrow> outcome" where
  "coreStep e i =
     (let e1 = e\<lparr> cpuCores := (cpuCores e)[i := CPUCore_tick (cpuCores e ! i)] \<rparr>;
          c = cpuCores e1 ! i
      in case currentThread c of
           None \<Rightarrow> Inr e1
         | Some t \<Rightarrow>
             (if isIdle c then Inr e1
              else let (done, e2) = runInstruction e1 t
                   in afterInstruction e2 i t done))"

fun coreSteps :: "engine \<Rightarrow> nat list \<Rightarrow> outcome" where
  "coreSteps e [] = Inr e"
| "coreSteps e (i # is) =
     (case coreStep e i of
        Inl x \<Rightarrow> Inl x
      | Inr e1 \<Rightarrow> coreSteps e1 is)"

text \<open>
  The many-to-one block: \<open>availableCores\<close> are the idle cores, and every one of them
  but the first has \<open>isIdle\<close> assigned \<open>true\<close>.
\<close>

definition manyToOneAdjust :: "engine \<Rightarrow> engine" where
  "manyToOneAdjust e =
     (if threadingModel e = ManyToOne
      then let availableCores = filter (\<lambda>i. isIdle (cpuCores e ! i)) [0 ..< length (cpuCores e)]
           in if length availableCores > 1
              then e\<lparr> cpuCores := fold (\<lambda>i cs. cs[i := (cs ! i)\<lparr> isIdle := True \<rparr>])
                                       (tl availableCores) (cpuCores e) \<rparr>
              else e
      else e)"

text \<open>The body of the second \<open>cpuCores.forEach\<close>, for the core at index \<open>i\<close>.\<close>

definition dispatchStep :: "engine \<Rightarrow> nat \<Rightarrow> engine" where
  "dispatchStep e i =
     (let c = cpuCores e ! i
      in if isIdle c \<and> length (readyQueue e) > 0
         then (let (selected, q) = Scheduler_selectNextThread (scheduler e) (store e) (readyQueue e);
                   e1 = e\<lparr> readyQueue := q \<rparr>
               in case selected of
                    None \<Rightarrow> e1
                  | Some t \<Rightarrow>
                      (let st1 = (store e1)(t := (store e1 t)\<lparr> quantum := 0 \<rparr>);
                           (c1, st2) = CPUCore_assignThread c t st1
                       in e1\<lparr> store := st2, cpuCores := (cpuCores e1)[i := c1] \<rparr>))
         else e)"

definition tick :: "engine \<Rightarrow> outcome" where
  "tick e =
     (let e1 = e\<lparr> clockTick := clockTick e + 1 \<rparr>;
          e2 = e1\<lparr> store := fold (\<lambda>t st. st(t := Thread_tick (st t))) (threads e1) (store e1) \<rparr>
      in case coreSteps e2 [0 ..< length (cpuCores e2)] of
           Inl x \<Rightarrow> Inl x
         | Inr e3 \<Rightarrow>
             (let e4 = manyToOneAdjust e3
              in Inr (fold (\<lambda>i e. dispatchStep e i) [0 ..< length (cpuCores e4)] e4)))"

text \<open>The engine after a call, whether the call returned or threw.\<close>

definition engineAfter :: "outcome \<Rightarrow> engine" where
  "engineAfter r = (case r of Inl (err, e) \<Rightarrow> e | Inr e \<Rightarrow> e)"

text \<open>
  The calls a driver makes on the engine between its construction and the state that
  is observed: \<open>tick\<close>, \<open>addThread\<close>, the callback of \<open>addThread\<close>'s timer,
  \<open>addSemaphore\<close> and \<open>addMonitor\<close>.  After a \<open>tick\<close> that throws, the driver goes on
  with the engine as the exception left it.
\<close>

datatype engine_call =
    Tick
  | AddThread tref
  | Timeout tref
  | AddSemaphore string int
  | AddMonitor string

fun call :: "engine_call \<Rightarrow> engine \<Rightarrow> engine" where
  "call Tick e = engineAfter (tick e)"
| "call (AddThread t) e = addThread e t"
| "call (Timeout t) e = addThread_timeout e t"
| "call (AddSemaphore n v) e = addSemaphore e n v"
| "call (AddMonitor n) e = addMonitor e n"

fun calls :: "engine_call list \<Rightarrow> engine \<Rightarrow> engine" where
  "calls [] e = e"
| "calls (c # cs) e = calls cs (call c e)"

section \<open>Invariants\<close>

text \<open>The relation between the cursor, the remaining time and the burst time.\<close>

definition Thread_inv :: "thread \<Rightarrow> bool" where
  "Thread_inv th \<longleftrightarrow> remainingTime th + int (currentInstruction th) = int (burstTime th)"

text \<open>
  What the engine may do to a thread object, as far as the cursor is concerned: the
  burst time stays, the cursor does not decrease, and the sum of cursor and remaining
  time stays.
\<close>

definition thread_progress :: "thread \<Rightarrow> thread \<Rightarrow> bool" where
  "thread_progress th th' \<longleftrightarrow>
     burstTime th' = burstTime th
   \<and> currentInstruction th \<le> currentInstruction th'
   \<and> remainingTime th' + int (currentInstruction th')
       = remainingTime th + int (currentInstruction th)"

definition store_progress :: "(tref \<Rightarrow> thread) \<Rightarrow> (tref \<Rightarrow> thread) \<Rightarrow> bool" where
  "store_progress st st' \<longleftrightarrow> (\<forall>r. thread_progress (st r) (st' r))"

text \<open>
  A thread that is in no queue and on no core: nothing in the engine refers to it but
  the thread list and possibly the blocked and terminated lists and monitor owners.
\<close>

definition detached :: "engine \<Rightarrow> tref \<Rightarrow> bool" where
  "detached e T \<longleftrightarrow>
     T \<notin> set (readyQueue e)
   \<and> (\<forall>c \<in> set (cpuCores e). currentThread c \<noteq> Some T)
   \<and> (\<forall>n s. semaphores e n = Some s \<longrightarrow> T \<notin> set (waitQueue s))
   \<and> (\<forall>n m. monitors e n = Some m \<longrightarrow> T \<notin> set (entryQueue m) \<and> T \<notin> set (conditionQueue m))"

text \<open>
  The invariant carried through a tick for such a thread: the number of cores, the
  state of the thread, and its being detached.
\<close>

definition quiet :: "nat \<Rightarrow> thread_state \<Rightarrow> tref \<Rightarrow> engine \<Rightarrow> bool" where
  "quiet k s T e \<longleftrightarrow> length (cpuCores e) = k \<and> state (store e T) = s \<and> detached e T"

section \<open>Scenarios\<close>

text \<open>The store before any thread of a scenario is constructed.\<close>

definition initialStore :: "tref \<Rightarrow> thread" where
  "initialStore = (\<lambda>r. Thread_new 0 [] 0 [])"

text \<open>
  Many-to-one model, four cores, two threads of two \<open>compute\<close> instructions each,
  both admitted and made ready by their timers.
\<close>

definition manyToOneStart :: engine where
  "manyToOneStart =
     calls [AddThread 1, AddThread 2, Timeout 1, Timeout 2]
       (newThread
          (newThread (initialize (SimulationEngine_new initialStore) 4 FCFS 3 ManyToOne)
             1 ''A'' 5 [Compute, Compute])
          2 ''B'' 5 [Compute, Compute])"

text \<open>
  Round-robin with quantum 1 on one core, a semaphore \<open>s\<close> of value 0, and one ready
  thread whose first instruction waits on \<open>s\<close>.
\<close>

definition blockedAtQuantumStart :: engine where
  "blockedAtQuantumStart =
     calls [AddSemaphore ''s'' 0, AddThread 1, Timeout 1]
       (newThread (initialize (SimulationEngine_new initialStore) 1 RoundRobin 1 OneToOne)
          1 ''A'' 5 [Wait ''s'', Compute])"

text \<open>
  FCFS on one core, a semaphore \<open>s\<close> of value 0, a thread whose only instruction
  waits on \<open>s\<close> and a thread whose only instruction signals \<open>s\<close>.
\<close>

definition lastInstructionBlocksStart :: engine where
  "lastInstructionBlocksStart =
     calls [AddSemaphore ''s'' 0, AddThread 1, AddThread 2, Timeout 1, Timeout 2]
       (newThread
          (newThread (initialize (SimulationEngine_new initialStore) 1 FCFS 3 OneToOne)
             1 ''A'' 5 [Wait ''s''])
          2 ''B'' 5 [Signal ''s''])"

text \<open>A ready thread whose first instruction waits on a semaphore nobody registered.\<close>

definition unknownResourceStart :: engine where
  "unknownResourceStart =
     calls [AddThread 1, Timeout 1]
       (newThread (initialize (SimulationEngine_new initialStore) 1 FCFS 3 OneToOne)
          1 ''A'' 5 [Wait ''nosuch'', Compute])"

text \<open>An engine with one core and one constructed thread that is not admitted yet.\<close>

definition admissionStart :: engine where
  "admissionStart =
     newThread (initialize (SimulationEngine_new initialStore) 1 FCFS 3 OneToOne)
       1 ''A'' 5 [Compute, Compute]"

text \<open>Three ready threads with priorities 5, 9 and 9: the first 9 is selected.\<close>

definition prioritiesStore :: "tref \<Rightarrow> thread" where
  "prioritiesStore =
     (\<lambda>r. Thread_new r [] (if r = 1 then 5 else 9) [Compute])"

text \<open>
  FCFS on one core, a semaphore \<open>s\<close> of value 0, a thread that waits on \<open>s\<close> and a
  thread that signals \<open>s\<close>, each followed by a \<open>compute\<close>.
\<close>

definition strandedStart :: engine where
  "strandedStart =
     calls [AddSemaphore ''s'' 0, AddThread 1, AddThread 2, Timeout 1, Timeout 2]
       (newThread
          (newThread (initialize (SimulationEngine_new initialStore) 1 FCFS 3 OneToOne)
             1 ''A'' 5 [Wait ''s'', Compute])
          2 ''B'' 5 [Signal ''s'', Compute])"

text \<open>
  Round-robin with quantum 2 on one core and one ready thread of three \<open>compute\<close>
  instructions.
\<close>

definition roundRobinStart :: engine where
  "roundRobinStart =
     calls [AddThread 1, Timeout 1]
       (newThread (initialize (SimulationEngine_new initialStore) 1 RoundRobin 2 OneToOne)
          1 ''A'' 5 [Compute, Compute, Compute])"

section \<open>Evaluation\<close>

lemmas engine_defs =
  initialize_def SimulationEngine_new_def reset_def newThread_def addThread_def
  mapThreadToKernel_def addThread_timeout_def moveToReady_def moveToBlocked_def
  moveToTerminated_def addSemaphore_def addMonitor_def Thread_new_def Thread_setState_def
  Thread_tick_def Thread_execute_def Thread_isComplete_def Semaphore_new_def
  Semaphore_wait_def Semaphore_signal_def Monitor_new_def Monitor_enter_def Monitor_exit_def
  Monitor_wait_def Monitor_signal_def CPUCore_new_def CPUCore_assignThread_def
  CPUCore_releaseThread_def CPUCore_tick_def Scheduler_selectNextThread_def
  Scheduler_shouldPreempt_def highestPriorityIndex_def blockRunning_def unblock_def
  executeInstruction_def releaseCoreAt_def runInstruction_def afterInstruction_def
  coreStep_def manyToOneAdjust_def dispatchStep_def tick_def engineAfter_def Let_def upt_rec

section \<open>Basic facts\<close>

lemma engineAfter_simps:
  "engineAfter (Inr e) = e" "engineAfter (Inl (x, e)) = e"
  by (simp_all add: engineAfter_def)

lemma length_releaseCoreOf: "length (releaseCoreOf cs t) = length cs"
  by (induction cs) simp_all

section \<open>The semaphore invariant\<close>

lemma Semaphore_inv_wait: "Semaphore_inv s \<Longrightarrow> Semaphore_inv (snd (Semaphore_wait s t))"
  by (auto simp: Semaphore_inv_def Semaphore_wait_def Let_def)

lemma Semaphore_inv_signal: "Semaphore_inv s \<Longrightarrow> Semaphore_inv (snd (Semaphore_signal s))"
  by (auto simp: Semaphore_inv_def Semaphore_signal_def Let_def split: list.splits)

lemma Semaphore_inv_calls: "Semaphore_inv s \<Longrightarrow> Semaphore_inv (Semaphore_calls cs s)"
proof (induction cs arbitrary: s)
  case Nil
  then show ?case by simp
next
  case (Cons c cs)
  then show ?case
    by (cases c) (simp_all add: Semaphore_inv_wait Semaphore_inv_signal)
qed

lemma Semaphore_inv_new: "0 \<le> v \<Longrightarrow> Semaphore_inv (Semaphore_new n v)"
  by (simp add: Semaphore_inv_def Semaphore_new_def)

text \<open>
  C6.  A semaphore created with a non-negative initial value satisfies
  \<open>waitQueue.length = max(0, -value)\<close> after every sequence of \<open>wait\<close> and \<open>signal\<close>
  calls.  In every such state, \<open>wait\<close> decrements the value and appends the caller at
  the tail of the queue exactly when the decremented value is negative (returning
  false then and true otherwise), and \<open>signal\<close> increments the value and removes and
  returns the head of the queue exactly when the queue is not empty.
\<close>

theorem semaphore_queue_length_invariant:
  assumes "0 \<le> v"
  shows "let s = Semaphore_calls cs (Semaphore_new n v) in
           int (length (waitQueue s)) = max 0 (- sem_value s)
         \<and> Semaphore_wait s t =
             (if sem_value s - 1 < 0
              then (False, s\<lparr> sem_value := sem_value s - 1, waitQueue := waitQueue s @ [t] \<rparr>)
              else (True, s\<lparr> sem_value := sem_value s - 1 \<rparr>))
         \<and> Semaphore_signal s =
             (if waitQueue s \<noteq> []
              then (Some (hd (waitQueue s)),
                    s\<lparr> sem_value := sem_value s + 1, waitQueue := tl (waitQueue s) \<rparr>)
              else (None, s\<lparr> sem_value := sem_value s + 1 \<rparr>))"
proof -
  have "Semaphore_inv (Semaphore_calls cs (Semaphore_new n v))"
    using assms by (simp add: Semaphore_inv_new Semaphore_inv_calls)
  then show ?thesis
    by (auto simp: Semaphore_inv_def Semaphore_wait_def Semaphore_signal_def Let_def
             split: list.splits)
qed

theorem semaphore_queue_length_invariant_witness:
  "(0::int) \<le> 1
   \<and> waitQueue (Semaphore_calls [CallWait 1, CallWait 2, CallWait 3, CallSignal]
                  (Semaphore_new ''buffer'' 1)) = [3]
   \<and> sem_value (Semaphore_calls [CallWait 1, CallWait 2, CallWait 3, CallSignal]
                  (Semaphore_new ''buffer'' 1)) = - 1"
  using semaphore_queue_length_invariant
          [of 1 "[CallWait 1, CallWait 2, CallWait 3, CallSignal]" "''buffer''" 0]
  by (simp add: Semaphore_new_def Semaphore_wait_def Semaphore_signal_def Let_def)

section \<open>Selection under the priority algorithm\<close>

lemma highestPriorityIndex_scan:
  assumes "1 \<le> n" "n \<le> length q"
  shows "let h = fold (\<lambda>i h. if priority (st (q ! i)) > priority (st (q ! h)) then i else h)
                      [1 ..< n] 0
         in h < n \<and> (\<forall>j<n. priority (st (q ! j)) \<le> priority (st (q ! h)))
              \<and> (\<forall>j<h. priority (st (q ! j)) < priority (st (q ! h)))"
  using assms
proof (induction n)
  case 0
  then show ?case by simp
next
  case (Suc n)
  show ?case
  proof (cases "n = 0")
    case True
    then show ?thesis by simp
  next
    case False
    then have n: "1 \<le> n" "n \<le> length q" using Suc.prems by simp_all
    have split: "[1 ..< Suc n] = [1 ..< n] @ [n]" using n by simp
    from Suc.IH [OF n] show ?thesis
      unfolding split fold_append Let_def
      by (auto simp: less_Suc_eq)
  qed
qed

text \<open>
  C5.  On a non-empty ready queue, \<open>selectNextThread\<close> under the priority algorithm
  returns the entry at some position \<open>h\<close> whose priority is maximal in the queue, every
  entry before \<open>h\<close> has a strictly smaller priority (so \<open>h\<close> is the earliest maximum),
  and the queue it leaves is the old one with position \<open>h\<close> removed, the other entries
  in their old order.
\<close>

theorem priority_selects_first_maximum:
  assumes "algorithm s = Priority" and "q \<noteq> []"
  shows "\<exists>h<length q.
           Scheduler_selectNextThread s st q = (Some (q ! h), take h q @ drop (Suc h) q)
         \<and> (\<forall>j<length q. priority (st (q ! j)) \<le> priority (st (q ! h)))
         \<and> (\<forall>j<h. priority (st (q ! j)) < priority (st (q ! h)))"
proof -
  from assms(2) have "1 \<le> length q" by (cases q) simp_all
  from highestPriorityIndex_scan [OF this order_refl, of st]
  show ?thesis
    using assms
    by (auto simp: Scheduler_selectNextThread_def highestPriorityIndex_def Let_def)
qed

theorem priority_selects_first_maximum_witness:
  "algorithm \<lparr> algorithm = Priority, timeQuantum = 3 \<rparr> = Priority \<and> [1, 2, 3] \<noteq> ([] :: tref list)
   \<and> Scheduler_selectNextThread \<lparr> algorithm = Priority, timeQuantum = 3 \<rparr> prioritiesStore [1, 2, 3]
       = (Some 2, [1, 3])"
  using priority_selects_first_maximum
          [of "\<lparr> algorithm = Priority, timeQuantum = 3 \<rparr>" "[1, 2, 3]" prioritiesStore]
  by (simp add: Scheduler_selectNextThread_def highestPriorityIndex_def prioritiesStore_def
                Thread_new_def upt_rec)

section \<open>Instructions that name an unknown resource\<close>

text \<open>
  C7.  When the instruction at the cursor of a running thread is a \<open>wait\<close> or \<open>signal\<close>
  whose resource is not a registered semaphore, or one of the four monitor instructions
  whose resource is not a registered monitor, \<open>executeInstruction\<close> returns the engine
  unchanged, and executing the instruction (\<open>Thread.execute\<close> followed by
  \<open>executeInstruction\<close>) changes nothing but the thread's cursor, remaining time and
  quantum counter: the instruction is consumed, and the semaphores, monitors, queues,
  cores and thread states stay as they were.
\<close>

theorem unknown_resource_is_noop:
  assumes "currentInstruction (store e t) < length (instructions (store e t))"
    and "instructions (store e t) ! currentInstruction (store e t) = ins"
    and "(ins = Wait r \<or> ins = Signal r) \<and> semaphores e r = None
       \<or> (ins = EnterMonitor r \<or> ins = ExitMonitor r \<or> ins = MonitorWait r
            \<or> ins = MonitorSignal r) \<and> monitors e r = None"
  shows "executeInstruction e t ins = e
       \<and> runInstruction e t =
           (False, e\<lparr> store := (store e)(t := (store e t)
               \<lparr> currentInstruction := currentInstruction (store e t) + 1,
                  remainingTime := remainingTime (store e t) - 1,
                  quantum := quantum (store e t) + 1 \<rparr>) \<rparr>)"
  using assms
  by (auto simp: executeInstruction_def runInstruction_def Thread_execute_def)

lemma unknownResourceStart_eval:
  "unknownResourceStart =
   \<lparr>store =
      initialStore
      (Suc 0 :=
         \<lparr>thread_id = Suc 0, thread_name = ''A'', priority = 5, state = READY,
            instructions = [Wait ''nosuch'', Compute], currentInstruction = 0,
            arrivalTime = 0, burstTime = Suc (Suc 0), remainingTime = 2, waitTime = 0,
            turnaroundTime = 0, completionTime = 0, timeInCurrentState = 0, quantum = 0,
            kernelThreadId = Some (Suc 0)\<rparr>),
      nextId = Suc (Suc 0), threads = [Suc 0], readyQueue = [Suc 0], blockedQueue = [],
      terminatedThreads = [],
      cpuCores = [\<lparr>core_id = 0, currentThread = None, isIdle = True, totalBusyTime = 0\<rparr>],
      semaphores = \<lambda>x. None, monitors = \<lambda>x. None,
      scheduler = \<lparr>algorithm = FCFS, timeQuantum = 3\<rparr>, clockTick = 0, isRunning = False,
      threadingModel = OneToOne, userThreadCount = Suc 0, kernelThreadCount = Suc 0\<rparr>"
  unfolding unknownResourceStart_def by (simp add: engine_defs)

lemma unknownResource_tick1:
  "calls [Tick] unknownResourceStart =
   \<lparr>store =
      initialStore
      (Suc 0 :=
         \<lparr>thread_id = Suc 0, thread_name = ''A'', priority = 5, state = RUNNING,
            instructions = [Wait ''nosuch'', Compute], currentInstruction = 0,
            arrivalTime = 0, burstTime = Suc (Suc 0), remainingTime = 2, waitTime = Suc 0,
            turnaroundTime = 0, completionTime = 0, timeInCurrentState = 0, quantum = 0,
            kernelThreadId = Some (Suc 0)\<rparr>),
      nextId = Suc (Suc 0), threads = [Suc 0], readyQueue = [], blockedQueue = [],
      terminatedThreads = [],
      cpuCores =
        [\<lparr>core_id = 0, currentThread = Some (Suc 0), isIdle = False, totalBusyTime = 0\<rparr>],
      semaphores = \<lambda>x. None, monitors = \<lambda>x. None,
      scheduler = \<lparr>algorithm = FCFS, timeQuantum = 3\<rparr>, clockTick = Suc 0, isRunning = False,
      threadingModel = OneToOne, userThreadCount = Suc 0, kernelThreadCount = Suc 0\<rparr>"
  unfolding unknownResourceStart_eval by (simp add: engine_defs)

theorem unknown_resource_is_noop_witness:
  "currentInstruction (store (calls [Tick] unknownResourceStart) 1)
     < length (instructions (store (calls [Tick] unknownResourceStart) 1))
   \<and> instructions (store (calls [Tick] unknownResourceStart) 1)
       ! currentInstruction (store (calls [Tick] unknownResourceStart) 1) = Wait ''nosuch''
   \<and> semaphores (calls [Tick] unknownResourceStart) ''nosuch'' = None
   \<and> map currentThread (cpuCores (calls [Tick] unknownResourceStart)) = [Some 1]
   \<and> executeInstruction (calls [Tick] unknownResourceStart) 1 (Wait ''nosuch'')
       = calls [Tick] unknownResourceStart"
proof -
  let ?e = "calls [Tick] unknownResourceStart"
  have a: "currentInstruction (store ?e 1) < length (instructions (store ?e 1))"
    unfolding unknownResource_tick1 by simp
  have b: "instructions (store ?e 1) ! currentInstruction (store ?e 1) = Wait ''nosuch''"
    unfolding unknownResource_tick1 by simp
  have c: "semaphores ?e ''nosuch'' = None"
    unfolding unknownResource_tick1 by simp
  have d: "map currentThread (cpuCores ?e) = [Some 1]"
    unfolding unknownResource_tick1 by simp
  from unknown_resource_is_noop [OF a b, of "''nosuch''"] a b c d show ?thesis
    by simp
qed

section \<open>The many-to-one block of tick\<close>

lemma manyToOneStart_eval:
  "manyToOneStart =
   \<lparr>store =
      initialStore
      (Suc 0 :=
         \<lparr>thread_id = Suc 0, thread_name = ''A'', priority = 5, state = READY,
            instructions = [Compute, Compute], currentInstruction = 0, arrivalTime = 0,
            burstTime = Suc (Suc 0), remainingTime = 2, waitTime = 0, turnaroundTime = 0,
            completionTime = 0, timeInCurrentState = 0, quantum = 0,
            kernelThreadId = Some (Suc 0)\<rparr>,
         2 := \<lparr>thread_id = Suc (Suc 0), thread_name = ''B'', priority = 5, state = READY,
                 instructions = [Compute, Compute], currentInstruction = 0, arrivalTime = 0,
                 burstTime = Suc (Suc 0), remainingTime = 2, waitTime = 0, turnaroundTime = 0,
                 completionTime = 0, timeInCurrentState = 0, quantum = 0,
                 kernelThreadId = Some (Suc 0)\<rparr>),
      nextId = Suc (Suc (Suc 0)), threads = [Suc 0, 2], readyQueue = [Suc 0, 2],
      blockedQueue = [], terminatedThreads = [],
      cpuCores =
        [\<lparr>core_id = 0, currentThread = None, isIdle = True, totalBusyTime = 0\<rparr>,
         \<lparr>core_id = Suc 0, currentThread = None, isIdle = True, totalBusyTime = 0\<rparr>,
         \<lparr>core_id = Suc (Suc 0), currentThread = None, isIdle = True, totalBusyTime = 0\<rparr>,
         \<lparr>core_id = Suc (Suc (Suc 0)), currentThread = None, isIdle = True,
            totalBusyTime = 0\<rparr>],
      semaphores = \<lambda>x. None, monitors = \<lambda>x. None,
      scheduler = \<lparr>algorithm = FCFS, timeQuantum = 3\<rparr>, clockTick = 0, isRunning = False,
      threadingModel = ManyToOne, userThreadCount = Suc (Suc 0), kernelThreadCount = Suc 0\<rparr>"
  unfolding manyToOneStart_def by (simp add: engine_defs)

text \<open>
  C1 fails on the code.  In the many-to-one model with four cores and two ready
  threads, \<open>tick\<close> returns with two cores busy: the block for the many-to-one model
  assigns \<open>isIdle = true\<close> to cores that it selected for being idle, which changes
  nothing, and the dispatch loop then fills every idle core.
\<close>

theorem many_to_one_two_cores_busy:
  "threadingModel manyToOneStart = ManyToOne
   \<and> (case tick manyToOneStart of
        Inl x \<Rightarrow> False
      | Inr e \<Rightarrow> map isIdle (cpuCores e) = [False, False, True, True]
                 \<and> map currentThread (cpuCores e) = [Some 1, Some 2, None, None])"
  unfolding manyToOneStart_eval by (simp add: engine_defs)

section \<open>A thread that blocks when its quantum is used up\<close>

lemma blockedAtQuantumStart_eval:
  "blockedAtQuantumStart =
   \<lparr>store =
      initialStore
      (Suc 0 :=
         \<lparr>thread_id = Suc 0, thread_name = ''A'', priority = 5, state = READY,
            instructions = [Wait ''s'', Compute], currentInstruction = 0, arrivalTime = 0,
            burstTime = Suc (Suc 0), remainingTime = 2, waitTime = 0, turnaroundTime = 0,
            completionTime = 0, timeInCurrentState = 0, quantum = 0,
            kernelThreadId = Some (Suc 0)\<rparr>),
      nextId = Suc (Suc 0), threads = [Suc 0], readyQueue = [Suc 0], blockedQueue = [],
      terminatedThreads = [],
      cpuCores = [\<lparr>core_id = 0, currentThread = None, isIdle = True, totalBusyTime = 0\<rparr>],
      semaphores = [''s'' \<mapsto> \<lparr>sem_name = ''s'', sem_value = 0, waitQueue = []\<rparr>],
      monitors = \<lambda>x. None, scheduler = \<lparr>algorithm = RoundRobin, timeQuantum = 1\<rparr>,
      clockTick = 0, isRunning = False, threadingModel = OneToOne, userThreadCount = Suc 0,
      kernelThreadCount = Suc 0\<rparr>"
  unfolding blockedAtQuantumStart_def by (simp add: engine_defs)

lemma blockedAtQuantum_tick1:
  "calls [Tick] blockedAtQuantumStart =
   \<lparr>store =
      initialStore
      (Suc 0 :=
         \<lparr>thread_id = Suc 0, thread_name = ''A'', priority = 5, state = RUNNING,
            instructions = [Wait ''s'', Compute], currentInstruction = 0, arrivalTime = 0,
            burstTime = Suc (Suc 0), remainingTime = 2, waitTime = Suc 0, turnaroundTime = 0,
            completionTime = 0, timeInCurrentState = 0, quantum = 0,
            kernelThreadId = Some (Suc 0)\<rparr>),
      nextId = Suc (Suc 0), threads = [Suc 0], readyQueue = [], blockedQueue = [],
      terminatedThreads = [],
      cpuCores =
        [\<lparr>core_id = 0, currentThread = Some (Suc 0), isIdle = False, totalBusyTime = 0\<rparr>],
      semaphores = [''s'' \<mapsto> \<lparr>sem_name = ''s'', sem_value = 0, waitQueue = []\<rparr>],
      monitors = \<lambda>x. None, scheduler = \<lparr>algorithm = RoundRobin, timeQuantum = 1\<rparr>,
      clockTick = Suc 0, isRunning = False, threadingModel = OneToOne,
      userThreadCount = Suc 0, kernelThreadCount = Suc 0\<rparr>"
  unfolding blockedAtQuantumStart_eval by (simp add: engine_defs)

text \<open>
  C2 fails on the code.  One core, round-robin with quantum 1, semaphore \<open>s\<close> of value
  0: after the first tick the thread runs on the core; in the second tick its \<open>wait\<close>
  blocks it, which releases the core, the preemption test then holds (quantum counter
  1), \<open>core.releaseThread()\<close> returns \<open>null\<close> and the assignment
  \<open>preemptedThread.quantum = 0\<close> throws.
\<close>

theorem tick_throws_when_blocked_thread_reaches_quantum:
  "map currentThread (cpuCores (calls [Tick] blockedAtQuantumStart)) = [Some 1]
   \<and> scheduler (calls [Tick] blockedAtQuantumStart)
       = \<lparr> algorithm = RoundRobin, timeQuantum = 1 \<rparr>
   \<and> (case tick (calls [Tick] blockedAtQuantumStart) of
        Inl (err, e) \<Rightarrow> err = TypeError \<and> state (store e 1) = BLOCKED
                          \<and> map currentThread (cpuCores e) = [None]
      | Inr e \<Rightarrow> False)"
  unfolding blockedAtQuantum_tick1 by (simp add: engine_defs)

section \<open>A thread whose last instruction blocks\<close>

lemma lastInstructionBlocksStart_eval:
  "lastInstructionBlocksStart =
   \<lparr>store =
      initialStore
      (Suc 0 :=
         \<lparr>thread_id = Suc 0, thread_name = ''A'', priority = 5, state = READY,
            instructions = [Wait ''s''], currentInstruction = 0, arrivalTime = 0,
            burstTime = Suc 0, remainingTime = 1, waitTime = 0, turnaroundTime = 0,
            completionTime = 0, timeInCurrentState = 0, quantum = 0,
            kernelThreadId = Some (Suc 0)\<rparr>,
         2 := \<lparr>thread_id = Suc (Suc 0), thread_name = ''B'', priority = 5, state = READY,
                 instructions = [Signal ''s''], currentInstruction = 0, arrivalTime = 0,
                 burstTime = Suc 0, remainingTime = 1, waitTime = 0, turnaroundTime = 0,
                 completionTime = 0, timeInCurrentState = 0, quantum = 0,
                 kernelThreadId = Some (Suc (Suc 0))\<rparr>),
      nextId = Suc (Suc (Suc 0)), threads = [Suc 0, 2], readyQueue = [Suc 0, 2],
      blockedQueue = [], terminatedThreads = [],
      cpuCores = [\<lparr>core_id = 0, currentThread = None, isIdle = True, totalBusyTime = 0\<rparr>],
      semaphores = [''s'' \<mapsto> \<lparr>sem_name = ''s'', sem_value = 0, waitQueue = []\<rparr>],
      monitors = \<lambda>x. None, scheduler = \<lparr>algorithm = FCFS, timeQuantum = 3\<rparr>, clockTick = 0,
      isRunning = False, threadingModel = OneToOne, userThreadCount = Suc (Suc 0),
      kernelThreadCount = Suc (Suc 0)\<rparr>"
  unfolding lastInstructionBlocksStart_def by (simp add: engine_defs)

lemma lastInstructionBlocks_tick1:
  "call Tick lastInstructionBlocksStart =
   \<lparr>store =
      initialStore
      (2 := \<lparr>thread_id = Suc (Suc 0), thread_name = ''B'', priority = 5, state = READY,
               instructions = [Signal ''s''], currentInstruction = 0, arrivalTime = 0,
               burstTime = Suc 0, remainingTime = 1, waitTime = Suc 0, turnaroundTime = 0,
               completionTime = 0, timeInCurrentState = Suc 0, quantum = 0,
               kernelThreadId = Some (Suc (Suc 0))\<rparr>,
         Suc 0 :=
           \<lparr>thread_id = Suc 0, thread_name = ''A'', priority = 5, state = RUNNING,
              instructions = [Wait ''s''], currentInstruction = 0, arrivalTime = 0,
              burstTime = Suc 0, remainingTime = 1, waitTime = Suc 0, turnaroundTime = 0,
              completionTime = 0, timeInCurrentState = 0, quantum = 0,
              kernelThreadId = Some (Suc 0)\<rparr>),
      nextId = Suc (Suc (Suc 0)), threads = [Suc 0, 2], readyQueue = [2], blockedQueue = [],
      terminatedThreads = [],
      cpuCores =
        [\<lparr>core_id = 0, currentThread = Some (Suc 0), isIdle = False, totalBusyTime = 0\<rparr>],
      semaphores = [''s'' \<mapsto> \<lparr>sem_name = ''s'', sem_value = 0, waitQueue = []\<rparr>],
      monitors = \<lambda>x. None, scheduler = \<lparr>algorithm = FCFS, timeQuantum = 3\<rparr>, clockTick = Suc 0,
      isRunning = False, threadingModel = OneToOne, userThreadCount = Suc (Suc 0),
      kernelThreadCount = Suc (Suc 0)\<rparr>"
  unfolding lastInstructionBlocksStart_eval by (simp add: engine_defs)

lemma lastInstructionBlocks_tick2:
  "calls [Tick, Tick] lastInstructionBlocksStart =
   \<lparr>store =
      initialStore
      (Suc 0 :=
         \<lparr>thread_id = Suc 0, thread_name = ''A'', priority = 5, state = TERMINATED,
            instructions = [Wait ''s''], currentInstruction = Suc 0, arrivalTime = 0,
            burstTime = Suc 0, remainingTime = 0, waitTime = Suc 0, turnaroundTime = 2,
            completionTime = Suc (Suc 0), timeInCurrentState = 0, quantum = 1,
            kernelThreadId = Some (Suc 0)\<rparr>,
         2 := \<lparr>thread_id = Suc (Suc 0), thread_name = ''B'', priority = 5, state = RUNNING,
                 instructions = [Signal ''s''], currentInstruction = 0, arrivalTime = 0,
                 burstTime = Suc 0, remainingTime = 1, waitTime = Suc (Suc 0),
                 turnaroundTime = 0, completionTime = 0, timeInCurrentState = 0, quantum = 0,
                 kernelThreadId = Some (Suc (Suc 0))\<rparr>),
      nextId = Suc (Suc (Suc 0)), threads = [Suc 0, 2], readyQueue = [],
      blockedQueue = [Suc 0], terminatedThreads = [Suc 0],
      cpuCores =
        [\<lparr>core_id = 0, currentThread = Some 2, isIdle = False, totalBusyTime = Suc 0\<rparr>],
      semaphores = [''s'' \<mapsto> \<lparr>sem_name = ''s'', sem_value = - 1, waitQueue = [Suc 0]\<rparr>],
      monitors = \<lambda>x. None, scheduler = \<lparr>algorithm = FCFS, timeQuantum = 3\<rparr>,
      clockTick = Suc (Suc 0), isRunning = False, threadingModel = OneToOne,
      userThreadCount = Suc (Suc 0), kernelThreadCount = Suc (Suc 0)\<rparr>"
  unfolding calls.simps lastInstructionBlocks_tick1 by (simp add: engine_defs)

text \<open>
  C3 fails on the code.  The only instruction of thread 1 is a \<open>wait\<close> that blocks:
  after the second tick the thread is TERMINATED and still in the wait queue of \<open>s\<close>.
  The \<open>signal\<close> of thread 2 then moves it to READY, and the third tick ends with
  thread 1 RUNNING on the core.
\<close>

theorem terminated_thread_becomes_ready_again:
  "state (store (calls [Tick, Tick] lastInstructionBlocksStart) 1) = TERMINATED
   \<and> map currentThread (cpuCores (calls [Tick, Tick] lastInstructionBlocksStart)) = [Some 2]
   \<and> state (store (executeInstruction (calls [Tick, Tick] lastInstructionBlocksStart) 2
                      (Signal ''s'')) 1) = READY
   \<and> (case tick (calls [Tick, Tick] lastInstructionBlocksStart) of
        Inl x \<Rightarrow> False
      | Inr e \<Rightarrow> state (store e 1) = RUNNING \<and> map currentThread (cpuCores e) = [Some 1])"
  unfolding lastInstructionBlocks_tick2 by (simp add: engine_defs)

section \<open>The execution cursor\<close>

lemma store_progress_refl: "store_progress st st"
  by (simp add: store_progress_def thread_progress_def)

lemma thread_progress_trans:
  "thread_progress a b \<Longrightarrow> thread_progress b c \<Longrightarrow> thread_progress a c"
  by (simp add: thread_progress_def)

lemma store_progress_upd:
  "store_progress st st' \<Longrightarrow> thread_progress (st' t) th \<Longrightarrow> store_progress st (st'(t := th))"
  unfolding store_progress_def by (auto intro: thread_progress_trans)

lemma thread_progress_setState: "thread_progress th (Thread_setState th s)"
  by (simp add: thread_progress_def Thread_setState_def)

lemma thread_progress_tick: "thread_progress th (Thread_tick th)"
  by (simp add: thread_progress_def Thread_tick_def Let_def)

lemma thread_progress_execute: "thread_progress th (snd (Thread_execute th))"
  by (simp add: thread_progress_def Thread_execute_def)

lemma progress_moveToReady:
  "store_progress st (store e) \<Longrightarrow> store_progress st (store (moveToReady e t))"
  by (simp add: moveToReady_def store_progress_upd thread_progress_setState)

lemma progress_moveToBlocked:
  "store_progress st (store e) \<Longrightarrow> store_progress st (store (moveToBlocked e t))"
  by (simp add: moveToBlocked_def store_progress_upd thread_progress_setState)

lemma progress_moveToTerminated:
  "store_progress st (store e) \<Longrightarrow> store_progress st (store (moveToTerminated e t))"
  by (rule store_progress_upd [of st "store e" t, THEN back_subst [of "store_progress st"]])
     (simp_all add: moveToTerminated_def thread_progress_def Thread_setState_def)

lemma progress_blockRunning:
  "store_progress st (store e) \<Longrightarrow> store_progress st (store (blockRunning e t))"
  by (simp add: blockRunning_def progress_moveToBlocked)

lemma progress_unblock:
  "store_progress st (store e) \<Longrightarrow> store_progress st (store (unblock e t))"
  by (simp add: unblock_def progress_moveToReady)

lemma progress_executeInstruction:
  "store_progress st (store e) \<Longrightarrow> store_progress st (store (executeInstruction e t ins))"
  by (auto simp: executeInstruction_def Let_def progress_blockRunning progress_unblock
           split: instruction.splits option.splits prod.splits)

lemma progress_runInstruction:
  "store_progress st (store e) \<Longrightarrow> store_progress st (store (snd (runInstruction e t)))"
  using thread_progress_execute [of "store e t"]
  by (auto simp: runInstruction_def Let_def store_progress_upd
           split: prod.splits option.splits intro!: progress_executeInstruction)

lemma progress_afterInstruction:
  "store_progress st (store e)
   \<Longrightarrow> store_progress st (store (engineAfter (afterInstruction e i t d)))"
  by (auto simp: afterInstruction_def releaseCoreAt_def CPUCore_releaseThread_def
                 thread_progress_def Let_def engineAfter_simps
           split: option.splits
           intro!: progress_moveToTerminated progress_moveToReady store_progress_upd)

lemma progress_coreStep:
  "store_progress st (store e) \<Longrightarrow> store_progress st (store (engineAfter (coreStep e i)))"
proof -
  assume p: "store_progress st (store e)"
  let ?e1 = "e\<lparr> cpuCores := (cpuCores e)[i := CPUCore_tick (cpuCores e ! i)] \<rparr>"
  have p1: "store_progress st (store ?e1)" using p by simp
  have "store_progress st (store (engineAfter (afterInstruction (snd (runInstruction ?e1 t)) i t d)))"
    for t d
    by (rule progress_afterInstruction, rule progress_runInstruction, rule p1)
  then show ?thesis
    using p1
    by (auto simp: coreStep_def Let_def case_prod_beta engineAfter_simps split: option.splits)
qed

lemma progress_coreSteps:
  "store_progress st (store e) \<Longrightarrow> store_progress st (store (engineAfter (coreSteps e is)))"
proof (induction "is" arbitrary: e)
  case Nil
  then show ?case by (simp add: engineAfter_simps)
next
  case (Cons i "is")
  from progress_coreStep [OF Cons.prems, of i] Cons.IH show ?case
    by (cases "coreStep e i") (auto simp: engineAfter_simps)
qed

lemma progress_dispatchStep:
  "store_progress st (store e) \<Longrightarrow> store_progress st (store (dispatchStep e i))"
  by (auto simp: dispatchStep_def Let_def CPUCore_assignThread_def thread_progress_def
                 Thread_setState_def
           split: prod.splits option.splits intro!: store_progress_upd)

lemma progress_dispatchSteps:
  "store_progress st (store e)
   \<Longrightarrow> store_progress st (store (fold (\<lambda>i e. dispatchStep e i) is e))"
  by (induction "is" arbitrary: e) (simp_all add: progress_dispatchStep)

lemma progress_thread_ticks:
  "store_progress st st'
   \<Longrightarrow> store_progress st (fold (\<lambda>t st. st(t := Thread_tick (st t))) ts st')"
  by (induction ts arbitrary: st') (simp_all add: store_progress_upd thread_progress_tick)

lemma store_manyToOneAdjust: "store (manyToOneAdjust e) = store e"
  by (simp add: manyToOneAdjust_def Let_def)

lemma progress_tick:
  "store_progress st (store e) \<Longrightarrow> store_progress st (store (engineAfter (tick e)))"
proof -
  assume p: "store_progress st (store e)"
  let ?e2 = "e\<lparr> clockTick := clockTick e + 1,
                 store := fold (\<lambda>t st. st(t := Thread_tick (st t))) (threads e) (store e) \<rparr>"
  have p2: "store_progress st (store ?e2)"
    using progress_thread_ticks [OF p] by simp
  from progress_coreSteps [OF p2, of "[0 ..< length (cpuCores e)]"]
  show ?thesis
    by (cases "coreSteps ?e2 [0 ..< length (cpuCores e)]")
       (auto simp: tick_def Let_def store_manyToOneAdjust engineAfter_simps
             intro!: progress_dispatchSteps)
qed

lemma progress_addThread:
  "store_progress st (store e) \<Longrightarrow> store_progress st (store (addThread e t))"
  by (auto simp: addThread_def mapThreadToKernel_def Let_def thread_progress_def
                 Thread_setState_def
           split: threading_model.splits intro!: store_progress_upd)

lemma progress_call:
  "store_progress st (store e) \<Longrightarrow> store_progress st (store (call c e))"
  by (cases c)
     (simp_all add: progress_tick progress_addThread addThread_timeout_def progress_moveToReady
                    addSemaphore_def addMonitor_def)

lemma progress_calls:
  "store_progress st (store e) \<Longrightarrow> store_progress st (store (calls cs e))"
  by (induction cs arbitrary: e) (simp_all add: progress_call)

text \<open>
  C9.  A thread satisfies \<open>remainingTime + currentInstruction = burstTime\<close> when it is
  constructed; a thread object that satisfies it does so after every sequence of
  engine calls (ticks, also ticks that throw, \<open>addThread\<close>, its timer callback,
  \<open>addSemaphore\<close>, \<open>addMonitor\<close>); and no such sequence decreases the cursor of any
  thread object.
\<close>

theorem cursor_invariant:
  "Thread_inv (Thread_new i n p ins)
   \<and> (Thread_inv (store e r) \<longrightarrow> Thread_inv (store (calls cs e) r))
   \<and> currentInstruction (store e r) \<le> currentInstruction (store (calls cs e) r)"
  using progress_calls [OF store_progress_refl, of e cs]
  by (auto simp: Thread_inv_def Thread_new_def store_progress_def thread_progress_def)

theorem cursor_invariant_witness:
  "Thread_inv (store lastInstructionBlocksStart 1)
   \<and> Thread_inv (store (calls [Tick, Tick] lastInstructionBlocksStart) 1)
   \<and> currentInstruction (store lastInstructionBlocksStart 1) = 0
   \<and> currentInstruction (store (calls [Tick, Tick] lastInstructionBlocksStart) 1) = 1"
proof -
  have a: "Thread_inv (store lastInstructionBlocksStart 1)"
    unfolding lastInstructionBlocksStart_eval by (simp add: Thread_inv_def)
  have b: "currentInstruction (store lastInstructionBlocksStart 1) = 0"
    unfolding lastInstructionBlocksStart_eval by simp
  have c: "currentInstruction (store (calls [Tick, Tick] lastInstructionBlocksStart) 1) = 1"
    unfolding lastInstructionBlocks_tick2 by simp
  from cursor_invariant [of 1 "''A''" 5 "[Wait ''s'']" lastInstructionBlocksStart 1 "[Tick, Tick]"]
    a b c
  show ?thesis by simp
qed

section \<open>Threads that sit in no queue\<close>

lemma quiet_moveToReady: "quiet k s T e \<Longrightarrow> t \<noteq> T \<Longrightarrow> quiet k s T (moveToReady e t)"
  by (simp add: quiet_def detached_def moveToReady_def)

lemma quiet_moveToBlocked: "quiet k s T e \<Longrightarrow> t \<noteq> T \<Longrightarrow> quiet k s T (moveToBlocked e t)"
  by (simp add: quiet_def detached_def moveToBlocked_def)

lemma quiet_moveToTerminated: "quiet k s T e \<Longrightarrow> t \<noteq> T \<Longrightarrow> quiet k s T (moveToTerminated e t)"
  by (simp add: quiet_def detached_def moveToTerminated_def)

lemma currentThread_releaseCoreOf:
  "\<forall>c \<in> set cs. currentThread c \<noteq> Some T
   \<Longrightarrow> \<forall>c \<in> set (releaseCoreOf cs t). currentThread c \<noteq> Some T"
  by (induction cs) (simp_all add: CPUCore_releaseThread_def)

lemma quiet_blockRunning: "quiet k s T e \<Longrightarrow> t \<noteq> T \<Longrightarrow> quiet k s T (blockRunning e t)"
proof -
  assume q: "quiet k s T e" and t: "t \<noteq> T"
  from q have "quiet k s T (e\<lparr> cpuCores := releaseCoreOf (cpuCores e) t \<rparr>)"
    using currentThread_releaseCoreOf [of "cpuCores e" T t]
    by (simp add: quiet_def detached_def length_releaseCoreOf)
  then show ?thesis
    unfolding blockRunning_def using t by (rule quiet_moveToBlocked)
qed

lemma quiet_unblock: "quiet k s T e \<Longrightarrow> u \<noteq> T \<Longrightarrow> quiet k s T (unblock e u)"
  unfolding unblock_def
  by (rule quiet_moveToReady) (simp_all add: quiet_def detached_def)

text \<open>Updating a registry entry with a primitive whose queues do not hold the thread.\<close>

lemma quiet_semaphores_upd:
  "quiet k s T e \<Longrightarrow> T \<notin> set (waitQueue s1)
   \<Longrightarrow> quiet k s T (e\<lparr> semaphores := (semaphores e)(r \<mapsto> s1) \<rparr>)"
  by (simp add: quiet_def detached_def)

lemma quiet_monitors_upd:
  "quiet k s T e \<Longrightarrow> T \<notin> set (entryQueue m1) \<Longrightarrow> T \<notin> set (conditionQueue m1)
   \<Longrightarrow> quiet k s T (e\<lparr> monitors := (monitors e)(r \<mapsto> m1) \<rparr>)"
  by (simp add: quiet_def detached_def)

lemma quiet_semaphore: "quiet k s T e \<Longrightarrow> semaphores e r = Some sem \<Longrightarrow> T \<notin> set (waitQueue sem)"
  by (simp add: quiet_def detached_def)

lemma quiet_monitor:
  "quiet k s T e \<Longrightarrow> monitors e r = Some m
   \<Longrightarrow> T \<notin> set (entryQueue m) \<and> T \<notin> set (conditionQueue m)"
  by (simp add: quiet_def detached_def)

lemma quiet_Wait:
  assumes "quiet k s T e" "t \<noteq> T"
  shows "quiet k s T (executeInstruction e t (Wait r))"
proof (cases "semaphores e r")
  case None
  then show ?thesis using assms by (simp add: executeInstruction_def)
next
  case (Some sem)
  from quiet_semaphore [OF assms(1) Some] assms
  show ?thesis
    by (auto simp: executeInstruction_def Some Semaphore_wait_def Let_def
             intro!: quiet_blockRunning quiet_semaphores_upd)
qed

lemma quiet_Signal:
  assumes "quiet k s T e" "t \<noteq> T"
  shows "quiet k s T (executeInstruction e t (Signal r))"
proof (cases "semaphores e r")
  case None
  then show ?thesis using assms by (simp add: executeInstruction_def)
next
  case (Some sem)
  from quiet_semaphore [OF assms(1) Some] assms
  show ?thesis
    by (auto simp: executeInstruction_def Some Semaphore_signal_def Let_def
             split: list.splits
             intro!: quiet_unblock quiet_semaphores_upd)
qed

lemma quiet_EnterMonitor:
  assumes "quiet k s T e" "t \<noteq> T"
  shows "quiet k s T (executeInstruction e t (EnterMonitor r))"
proof (cases "monitors e r")
  case None
  then show ?thesis using assms by (simp add: executeInstruction_def)
next
  case (Some m)
  from quiet_monitor [OF assms(1) Some] assms
  show ?thesis
    by (auto simp: executeInstruction_def Some Monitor_enter_def Let_def
             intro!: quiet_blockRunning quiet_monitors_upd)
qed

lemma quiet_ExitMonitor:
  assumes "quiet k s T e" "t \<noteq> T"
  shows "quiet k s T (executeInstruction e t (ExitMonitor r))"
proof (cases "monitors e r")
  case None
  then show ?thesis using assms by (simp add: executeInstruction_def)
next
  case (Some m)
  from quiet_monitor [OF assms(1) Some] assms
  show ?thesis
    by (auto simp: executeInstruction_def Some Monitor_exit_def Let_def
             split: list.splits
             intro!: quiet_unblock quiet_monitors_upd)
qed

lemma quiet_MonitorWait:
  assumes "quiet k s T e" "t \<noteq> T"
  shows "quiet k s T (executeInstruction e t (MonitorWait r))"
proof (cases "monitors e r")
  case None
  then show ?thesis using assms by (simp add: executeInstruction_def)
next
  case (Some m)
  from quiet_monitor [OF assms(1) Some] assms
  show ?thesis
    by (auto simp: executeInstruction_def Some Monitor_wait_def Let_def
             split: list.splits
             intro!: quiet_unblock quiet_blockRunning quiet_monitors_upd)
qed

lemma quiet_MonitorSignal:
  assumes "quiet k s T e" "t \<noteq> T"
  shows "quiet k s T (executeInstruction e t (MonitorSignal r))"
proof (cases "monitors e r")
  case None
  then show ?thesis using assms by (simp add: executeInstruction_def)
next
  case (Some m)
  from quiet_monitor [OF assms(1) Some] assms
  show ?thesis
    by (auto simp: executeInstruction_def Some Monitor_signal_def Let_def
             split: list.splits
             intro!: quiet_unblock quiet_monitors_upd)
qed

lemma quiet_executeInstruction:
  "quiet k s T e \<Longrightarrow> t \<noteq> T \<Longrightarrow> quiet k s T (executeInstruction e t ins)"
  by (cases ins)
     (simp_all add: quiet_Wait quiet_Signal quiet_EnterMonitor quiet_ExitMonitor
                    quiet_MonitorWait quiet_MonitorSignal,
      simp_all add: executeInstruction_def)


lemma quiet_runInstruction:
  "quiet k s T e \<Longrightarrow> t \<noteq> T \<Longrightarrow> quiet k s T (snd (runInstruction e t))"
proof -
  assume q: "quiet k s T e" and t: "t \<noteq> T"
  have "quiet k s T (e\<lparr> store := (store e)(t := th) \<rparr>)" for th
    using q t by (simp add: quiet_def detached_def)
  then show ?thesis
    using t
    by (auto simp: runInstruction_def Let_def case_prod_beta split: option.splits
             intro!: quiet_executeInstruction)
qed

lemma quiet_releaseCoreAt: "quiet k s T e \<Longrightarrow> quiet k s T (releaseCoreAt e i)"
  by (auto simp: quiet_def detached_def releaseCoreAt_def CPUCore_releaseThread_def
           dest!: set_update_subset_insert [THEN subsetD])

lemma quiet_core: "quiet k s T e \<Longrightarrow> i < k \<Longrightarrow> currentThread (cpuCores e ! i) \<noteq> Some T"
  by (auto simp: quiet_def detached_def)

lemma quiet_afterInstruction:
  assumes "quiet k s T e" "t \<noteq> T" "i < k"
  shows "quiet k s T (engineAfter (afterInstruction e i t d))"
proof -
  have r: "quiet k s T (releaseCoreAt e i)"
    using assms(1) by (rule quiet_releaseCoreAt)
  have "quiet k s T (moveToReady ((releaseCoreAt e i)\<lparr> store := (store e)(p := (store e p)\<lparr> quantum := 0 \<rparr>) \<rparr>) p)"
    if "p \<noteq> T" for p
    using r that by (intro quiet_moveToReady) (simp_all add: quiet_def detached_def releaseCoreAt_def)
  with r quiet_core [OF assms(1,3)] assms show ?thesis
    by (auto simp: afterInstruction_def Let_def CPUCore_releaseThread_def engineAfter_def
                   releaseCoreAt_def
             split: option.splits intro!: quiet_moveToTerminated)
qed


lemma quiet_coreStep:
  assumes "quiet k s T e" "i < k"
  shows "quiet k s T (engineAfter (coreStep e i))"
proof -
  let ?e1 = "e\<lparr> cpuCores := (cpuCores e)[i := CPUCore_tick (cpuCores e ! i)] \<rparr>"
  have q1: "quiet k s T ?e1"
    using assms
    by (auto simp: quiet_def detached_def CPUCore_tick_def
             dest!: set_update_subset_insert [THEN subsetD])
  have "quiet k s T (engineAfter (afterInstruction (snd (runInstruction ?e1 t)) i t d))"
    if "t \<noteq> T" for t d
    using q1 that assms(2) by (intro quiet_afterInstruction quiet_runInstruction)
  with q1 quiet_core [OF q1 assms(2)] show ?thesis
    by (auto simp: coreStep_def Let_def case_prod_beta engineAfter_def split: option.splits)
qed

lemma quiet_coreSteps:
  "quiet k s T e \<Longrightarrow> \<forall>i \<in> set is. i < k \<Longrightarrow> quiet k s T (engineAfter (coreSteps e is))"
proof (induction "is" arbitrary: e)
  case Nil
  then show ?case by (simp add: engineAfter_def)
next
  case (Cons i "is")
  from Cons.prems have "quiet k s T (engineAfter (coreStep e i))"
    by (intro quiet_coreStep) simp_all
  with Cons show ?case
    by (cases "coreStep e i") (auto simp: engineAfter_def)
qed

lemma length_manyToOne_fold:
  "length (fold (\<lambda>i cs. cs[i := (cs ! i)\<lparr> isIdle := True \<rparr>]) is cs) = length cs"
  by (induction "is" arbitrary: cs) simp_all

lemma currentThread_setIdle:
  "\<forall>c \<in> set cs. currentThread c \<noteq> Some T
   \<Longrightarrow> \<forall>c \<in> set (cs[i := (cs ! i)\<lparr> isIdle := True \<rparr>]). currentThread c \<noteq> Some T"
  by (cases "i < length cs")
     (auto simp: list_update_beyond dest!: set_update_subset_insert [THEN subsetD])

lemma currentThread_manyToOne_fold:
  "\<forall>c \<in> set cs. currentThread c \<noteq> Some T
   \<Longrightarrow> \<forall>c \<in> set (fold (\<lambda>i cs. cs[i := (cs ! i)\<lparr> isIdle := True \<rparr>]) is cs).
         currentThread c \<noteq> Some T"
proof (induction "is" arbitrary: cs)
  case Nil
  then show ?case by simp
next
  case (Cons i "is")
  from Cons.IH [OF currentThread_setIdle [OF Cons.prems, of i]] show ?case
    by simp
qed

lemma quiet_manyToOneAdjust: "quiet k s T e \<Longrightarrow> quiet k s T (manyToOneAdjust e)"
  using currentThread_manyToOne_fold [of "cpuCores e" T]
  by (simp add: quiet_def detached_def manyToOneAdjust_def Let_def length_manyToOne_fold)

lemma highestPriorityIndex_less: "q \<noteq> [] \<Longrightarrow> highestPriorityIndex st q < length q"
proof -
  assume "q \<noteq> []"
  then have "1 \<le> length q" by (cases q) simp_all
  from highestPriorityIndex_scan [OF this order_refl, of st] show ?thesis
    by (simp add: highestPriorityIndex_def Let_def)
qed

lemma selectNextThread_subset:
  assumes "Scheduler_selectNextThread sch st q = (sel, q')"
  shows "set q' \<subseteq> set q \<and> (\<forall>t. sel = Some t \<longrightarrow> t \<in> set q)"
proof (cases "q = []")
  case True
  then show ?thesis using assms by (simp add: Scheduler_selectNextThread_def)
next
  case False
  then have hd: "hd q \<in> set q" and tl: "set (tl q) \<subseteq> set q"
    by (simp_all add: list.set_sel(2) subsetI)
  with False highestPriorityIndex_less [OF False, of st] assms show ?thesis
    by (cases "algorithm sch")
       (auto simp: Scheduler_selectNextThread_def Let_def dest: in_set_takeD in_set_dropD)
qed

lemma quiet_dispatchStep:
  assumes "quiet k s T e"
  shows "quiet k s T (dispatchStep e i)"
proof (cases "isIdle (cpuCores e ! i) \<and> length (readyQueue e) > 0")
  case False
  then show ?thesis using assms by (auto simp: dispatchStep_def Let_def)
next
  case True
  obtain sel q' where sel: "Scheduler_selectNextThread (scheduler e) (store e) (readyQueue e) = (sel, q')"
    by (cases "Scheduler_selectNextThread (scheduler e) (store e) (readyQueue e)")
  from selectNextThread_subset [OF sel] assms
  have q': "T \<notin> set q'" and t: "\<And>t. sel = Some t \<Longrightarrow> t \<noteq> T"
    by (auto simp: quiet_def detached_def)
  show ?thesis
  proof (cases sel)
    case None
    with True sel q' assms show ?thesis
      by (simp add: dispatchStep_def Let_def quiet_def detached_def)
  next
    case (Some t)
    with True sel q' t [OF Some] assms show ?thesis
      by (auto simp: dispatchStep_def Let_def quiet_def detached_def CPUCore_assignThread_def
               dest!: set_update_subset_insert [THEN subsetD])
  qed
qed

lemma quiet_dispatchSteps:
  "quiet k s T e \<Longrightarrow> quiet k s T (fold (\<lambda>i e. dispatchStep e i) is e)"
  by (induction "is" arbitrary: e) (simp_all add: quiet_dispatchStep)

lemma state_thread_ticks:
  "state (fold (\<lambda>t st. st(t := Thread_tick (st t))) ts st T) = state (st T)"
  by (induction ts arbitrary: st) (simp_all add: Thread_tick_def Let_def)

lemma quiet_tick:
  assumes "quiet k s T e"
  shows "quiet k s T (engineAfter (tick e))"
proof -
  let ?e2 = "e\<lparr> clockTick := clockTick e + 1,
                 store := fold (\<lambda>t st. st(t := Thread_tick (st t))) (threads e) (store e) \<rparr>"
  have q2: "quiet k s T ?e2"
    using assms by (simp add: quiet_def detached_def state_thread_ticks)
  have k: "length (cpuCores e) = k" using assms by (simp add: quiet_def)
  have q3: "quiet k s T (engineAfter (coreSteps ?e2 [0 ..< length (cpuCores e)]))"
    using q2 by (rule quiet_coreSteps) (simp add: k)
  show ?thesis
  proof (cases "coreSteps ?e2 [0 ..< length (cpuCores e)]")
    case (Inl x)
    with q3 show ?thesis by (simp add: tick_def Let_def engineAfter_def)
  next
    case (Inr e3)
    with q3 have "quiet k s T e3" by (simp add: engineAfter_def)
    then have "quiet k s T (fold (\<lambda>i e. dispatchStep e i) is (manyToOneAdjust e3))" for "is"
      by (intro quiet_dispatchSteps quiet_manyToOneAdjust)
    with Inr show ?thesis by (simp add: tick_def Let_def engineAfter_def)
  qed
qed

lemma quiet_addThread: "quiet k s T e \<Longrightarrow> t \<noteq> T \<Longrightarrow> quiet k s T (addThread e t)"
  by (auto simp: quiet_def detached_def addThread_def mapThreadToKernel_def Let_def
           split: threading_model.splits)

lemma quiet_call:
  assumes "quiet k s T e" "c \<noteq> AddThread T" "c = Timeout T \<longrightarrow> s \<noteq> NEW"
  shows "quiet k s T (call c e)"
proof (cases c)
  case Tick
  then show ?thesis using assms by (simp add: quiet_tick)
next
  case (AddThread t)
  then show ?thesis using assms by (simp add: quiet_addThread)
next
  case (Timeout t)
  show ?thesis
  proof (cases "t = T")
    case True
    with Timeout assms have "state (store e T) \<noteq> NEW" by (simp add: quiet_def)
    with Timeout True assms(1) show ?thesis by (simp add: addThread_timeout_def)
  next
    case False
    with Timeout assms(1) show ?thesis by (simp add: addThread_timeout_def quiet_moveToReady)
  qed
next
  case (AddSemaphore n v)
  then show ?thesis
    using assms by (simp add: addSemaphore_def quiet_def detached_def Semaphore_new_def)
next
  case (AddMonitor n)
  then show ?thesis
    using assms by (simp add: addMonitor_def quiet_def detached_def Monitor_new_def)
qed

lemma quiet_calls:
  "quiet k s T e \<Longrightarrow> AddThread T \<notin> set cs \<Longrightarrow> (Timeout T \<in> set cs \<longrightarrow> s \<noteq> NEW)
   \<Longrightarrow> quiet k s T (calls cs e)"
proof (induction cs arbitrary: e)
  case Nil
  then show ?case by simp
next
  case (Cons c cs)
  from Cons.prems have "quiet k s T (call c e)"
    by (intro quiet_call) auto
  with Cons show ?case by simp
qed

section \<open>Replacing a registered primitive\<close>

lemma strandedStart_eval:
  "strandedStart =
   \<lparr>store =
      initialStore
      (Suc 0 :=
         \<lparr>thread_id = Suc 0, thread_name = ''A'', priority = 5, state = READY,
            instructions = [Wait ''s'', Compute], currentInstruction = 0, arrivalTime = 0,
            burstTime = Suc (Suc 0), remainingTime = 2, waitTime = 0, turnaroundTime = 0,
            completionTime = 0, timeInCurrentState = 0, quantum = 0,
            kernelThreadId = Some (Suc 0)\<rparr>,
         2 := \<lparr>thread_id = Suc (Suc 0), thread_name = ''B'', priority = 5, state = READY,
                 instructions = [Signal ''s'', Compute], currentInstruction = 0,
                 arrivalTime = 0, burstTime = Suc (Suc 0), remainingTime = 2, waitTime = 0,
                 turnaroundTime = 0, completionTime = 0, timeInCurrentState = 0, quantum = 0,
                 kernelThreadId = Some (Suc (Suc 0))\<rparr>),
      nextId = Suc (Suc (Suc 0)), threads = [Suc 0, 2], readyQueue = [Suc 0, 2],
      blockedQueue = [], terminatedThreads = [],
      cpuCores = [\<lparr>core_id = 0, currentThread = None, isIdle = True, totalBusyTime = 0\<rparr>],
      semaphores = [''s'' \<mapsto> \<lparr>sem_name = ''s'', sem_value = 0, waitQueue = []\<rparr>],
      monitors = \<lambda>x. None, scheduler = \<lparr>algorithm = FCFS, timeQuantum = 3\<rparr>, clockTick = 0,
      isRunning = False, threadingModel = OneToOne, userThreadCount = Suc (Suc 0),
      kernelThreadCount = Suc (Suc 0)\<rparr>"
  unfolding strandedStart_def by (simp add: engine_defs)

lemma stranded_tick1:
  "call Tick strandedStart =
   \<lparr>store =
      initialStore
      (2 := \<lparr>thread_id = Suc (Suc 0), thread_name = ''B'', priority = 5, state = READY,
               instructions = [Signal ''s'', Compute], currentInstruction = 0,
               arrivalTime = 0, burstTime = Suc (Suc 0), remainingTime = 2, waitTime = Suc 0,
               turnaroundTime = 0, completionTime = 0, timeInCurrentState = Suc 0,
               quantum = 0, kernelThreadId = Some (Suc (Suc 0))\<rparr>,
         Suc 0 :=
           \<lparr>thread_id = Suc 0, thread_name = ''A'', priority = 5, state = RUNNING,
              instructions = [Wait ''s'', Compute], currentInstruction = 0, arrivalTime = 0,
              burstTime = Suc (Suc 0), remainingTime = 2, waitTime = Suc 0,
              turnaroundTime = 0, completionTime = 0, timeInCurrentState = 0, quantum = 0,
              kernelThreadId = Some (Suc 0)\<rparr>),
      nextId = Suc (Suc (Suc 0)), threads = [Suc 0, 2], readyQueue = [2], blockedQueue = [],
      terminatedThreads = [],
      cpuCores =
        [\<lparr>core_id = 0, currentThread = Some (Suc 0), isIdle = False, totalBusyTime = 0\<rparr>],
      semaphores = [''s'' \<mapsto> \<lparr>sem_name = ''s'', sem_value = 0, waitQueue = []\<rparr>],
      monitors = \<lambda>x. None, scheduler = \<lparr>algorithm = FCFS, timeQuantum = 3\<rparr>, clockTick = Suc 0,
      isRunning = False, threadingModel = OneToOne, userThreadCount = Suc (Suc 0),
      kernelThreadCount = Suc (Suc 0)\<rparr>"
  unfolding strandedStart_eval by (simp add: engine_defs)

lemma stranded_tick2:
  "calls [Tick, Tick] strandedStart =
   \<lparr>store =
      initialStore
      (Suc 0 :=
         \<lparr>thread_id = Suc 0, thread_name = ''A'', priority = 5, state = BLOCKED,
            instructions = [Wait ''s'', Compute], currentInstruction = Suc 0, arrivalTime = 0,
            burstTime = Suc (Suc 0), remainingTime = 1, waitTime = Suc 0, turnaroundTime = 0,
            completionTime = 0, timeInCurrentState = 0, quantum = 1,
            kernelThreadId = Some (Suc 0)\<rparr>,
         2 := \<lparr>thread_id = Suc (Suc 0), thread_name = ''B'', priority = 5, state = RUNNING,
                 instructions = [Signal ''s'', Compute], currentInstruction = 0,
                 arrivalTime = 0, burstTime = Suc (Suc 0), remainingTime = 2,
                 waitTime = Suc (Suc 0), turnaroundTime = 0, completionTime = 0,
                 timeInCurrentState = 0, quantum = 0, kernelThreadId = Some (Suc (Suc 0))\<rparr>),
      nextId = Suc (Suc (Suc 0)), threads = [Suc 0, 2], readyQueue = [],
      blockedQueue = [Suc 0], terminatedThreads = [],
      cpuCores =
        [\<lparr>core_id = 0, currentThread = Some 2, isIdle = False, totalBusyTime = Suc 0\<rparr>],
      semaphores = [''s'' \<mapsto> \<lparr>sem_name = ''s'', sem_value = - 1, waitQueue = [Suc 0]\<rparr>],
      monitors = \<lambda>x. None, scheduler = \<lparr>algorithm = FCFS, timeQuantum = 3\<rparr>,
      clockTick = Suc (Suc 0), isRunning = False, threadingModel = OneToOne,
      userThreadCount = Suc (Suc 0), kernelThreadCount = Suc (Suc 0)\<rparr>"
  unfolding calls.simps stranded_tick1 by (simp add: engine_defs)

text \<open>
  C10.  \<open>addSemaphore\<close> (\<open>addMonitor\<close>) registers a fresh semaphore (monitor) under
  the name, whether or not the name was registered before.  A thread that has left
  the state NEW, is in no ready queue and on no core, and is enqueued in no semaphore
  or monitor other than the one being replaced, is afterwards enqueued nowhere, and its
  state is the same after every later sequence of engine calls that does not hand the
  thread to \<open>addThread\<close> again: a thread that was BLOCKED in the replaced primitive
  stays BLOCKED, and no instruction moves it back to READY.
\<close>

theorem replaced_primitive_strands_waiters:
  assumes "c = AddSemaphore n v \<or> c = AddMonitor n"
    and "state (store e T) \<noteq> NEW"
    and "T \<notin> set (readyQueue e)"
    and "\<forall>k \<in> set (cpuCores e). currentThread k \<noteq> Some T"
    and "\<forall>m s. semaphores e m = Some s \<and> T \<in> set (waitQueue s) \<longrightarrow> c = AddSemaphore m v"
    and "\<forall>m mon. monitors e m = Some mon
            \<and> (T \<in> set (entryQueue mon) \<or> T \<in> set (conditionQueue mon)) \<longrightarrow> c = AddMonitor m"
    and "AddThread T \<notin> set cs"
  shows "(c = AddSemaphore n v \<longrightarrow> semaphores (call c e) n = Some (Semaphore_new n v))
       \<and> (c = AddMonitor n \<longrightarrow> monitors (call c e) n = Some (Monitor_new n))
       \<and> detached (call c e) T
       \<and> state (store (calls (c # cs) e) T) = state (store e T)"
proof -
  have q: "quiet (length (cpuCores e)) (state (store e T)) T (call c e)"
    using assms(1)
  proof
    assume c: "c = AddSemaphore n v"
    with assms(5,6) have "\<forall>m s. m \<noteq> n \<longrightarrow> semaphores e m = Some s \<longrightarrow> T \<notin> set (waitQueue s)"
      and "\<forall>m mon. monitors e m = Some mon
             \<longrightarrow> T \<notin> set (entryQueue mon) \<and> T \<notin> set (conditionQueue mon)"
      by auto
    with c assms(3,4) show ?thesis
      by (simp add: quiet_def detached_def addSemaphore_def Semaphore_new_def)
  next
    assume c: "c = AddMonitor n"
    with assms(5,6) have "\<forall>m s. semaphores e m = Some s \<longrightarrow> T \<notin> set (waitQueue s)"
      and "\<forall>m mon. m \<noteq> n \<longrightarrow> monitors e m = Some mon
             \<longrightarrow> T \<notin> set (entryQueue mon) \<and> T \<notin> set (conditionQueue mon)"
      by auto
    with c assms(3,4) show ?thesis
      by (simp add: quiet_def detached_def addMonitor_def Monitor_new_def)
  qed
  from quiet_calls [OF q assms(7)] assms(2)
  have "quiet (length (cpuCores e)) (state (store e T)) T (calls cs (call c e))"
    by simp
  with q show ?thesis
    by (auto simp: quiet_def addSemaphore_def addMonitor_def)
qed

theorem replaced_primitive_strands_waiters_witness:
  "state (store (calls [Tick, Tick] strandedStart) 1) = BLOCKED
   \<and> (\<exists>s. semaphores (calls [Tick, Tick] strandedStart) ''s'' = Some s \<and> waitQueue s = [1])
   \<and> state (store (calls [AddSemaphore ''s'' 0, Tick, Tick] (calls [Tick, Tick] strandedStart)) 1)
       = BLOCKED
   \<and> state (store (calls [Tick, Tick] (calls [Tick, Tick] strandedStart)) 1) = RUNNING"
proof -
  let ?e = "calls [Tick, Tick] strandedStart"
  have a: "state (store ?e 1) \<noteq> NEW" "1 \<notin> set (readyQueue ?e)"
    "\<forall>k \<in> set (cpuCores ?e). currentThread k \<noteq> Some 1"
    unfolding stranded_tick2 by simp_all
  have a': "state (store ?e 1) = BLOCKED"
    unfolding stranded_tick2 by simp
  have b: "\<forall>m s. semaphores ?e m = Some s \<and> 1 \<in> set (waitQueue s)
             \<longrightarrow> AddSemaphore ''s'' 0 = AddSemaphore m 0"
    unfolding stranded_tick2 by (simp split: if_splits)
  have c: "\<forall>m mon. monitors ?e m = Some mon
             \<and> (1 \<in> set (entryQueue mon) \<or> 1 \<in> set (conditionQueue mon))
             \<longrightarrow> AddSemaphore ''s'' 0 = AddMonitor m"
    unfolding stranded_tick2 by simp
  have d: "\<exists>s. semaphores ?e ''s'' = Some s \<and> waitQueue s = [1]"
    unfolding stranded_tick2 by simp
  have e: "state (store (calls [Tick, Tick] ?e) 1) = RUNNING"
    unfolding stranded_tick2 by (simp add: engine_defs)
  have f: "AddThread 1 \<notin> set [Tick, Tick]" by simp
  from replaced_primitive_strands_waiters
         [of "AddSemaphore ''s'' 0" "''s''" 0 ?e 1 "[Tick, Tick]", OF _ a b c f] a' d e
  show ?thesis by simp
qed

section \<open>Admission\<close>

lemma admissionStart_eval:
  "admissionStart =
   \<lparr>store =
      initialStore
      (Suc 0 :=
         \<lparr>thread_id = Suc 0, thread_name = ''A'', priority = 5, state = NEW,
            instructions = [Compute, Compute], currentInstruction = 0, arrivalTime = 0,
            burstTime = Suc (Suc 0), remainingTime = 2, waitTime = 0, turnaroundTime = 0,
            completionTime = 0, timeInCurrentState = 0, quantum = 0, kernelThreadId = None\<rparr>),
      nextId = Suc (Suc 0), threads = [], readyQueue = [], blockedQueue = [],
      terminatedThreads = [],
      cpuCores = [\<lparr>core_id = 0, currentThread = None, isIdle = True, totalBusyTime = 0\<rparr>],
      semaphores = \<lambda>x. None, monitors = \<lambda>x. None,
      scheduler = \<lparr>algorithm = FCFS, timeQuantum = 3\<rparr>, clockTick = 0, isRunning = False,
      threadingModel = OneToOne, userThreadCount = 0, kernelThreadCount = 0\<rparr>"
  unfolding admissionStart_def by (simp add: engine_defs)

text \<open>
  C8 fails on the code as stated: the transition to READY is not a function of the
  simulated clock.  After \<open>addThread\<close> and two ticks the thread is still NEW; if the
  timer callback runs between \<open>addThread\<close> and the first tick, the thread is RUNNING
  at the same clock value.
\<close>

theorem admission_not_a_function_of_the_clock:
  "clockTick (calls [AddThread 1, Tick, Tick] admissionStart) = 2
   \<and> state (store (calls [AddThread 1, Tick, Tick] admissionStart) 1) = NEW
   \<and> clockTick (calls [AddThread 1, Timeout 1, Tick, Tick] admissionStart) = 2
   \<and> state (store (calls [AddThread 1, Timeout 1, Tick, Tick] admissionStart) 1) = RUNNING"
  unfolding admissionStart_eval by (simp add: engine_defs)

text \<open>
  C8, amended.  \<open>addThread\<close> leaves the thread in state NEW with \<open>arrivalTime\<close> equal
  to the current clock tick, and changes neither the clock nor the ready queue.  A
  thread that is in no queue and on no core when it is added stays NEW through every
  sequence of later engine calls that contains neither its timer callback nor another
  \<open>addThread\<close> of it, whatever the number of ticks.  The callback that \<open>addThread\<close>
  hands to \<open>setTimeout\<close> moves the thread to READY, at the tail of the ready queue,
  when the thread is still NEW, and does nothing otherwise.
\<close>

theorem addThread_admits_new_until_timer:
  "state (store (addThread e t) t) = NEW
   \<and> arrivalTime (store (addThread e t) t) = clockTick e
   \<and> clockTick (addThread e t) = clockTick e
   \<and> readyQueue (addThread e t) = readyQueue e
   \<and> (detached e t \<and> AddThread t \<notin> set cs \<and> Timeout t \<notin> set cs
        \<longrightarrow> state (store (calls cs (addThread e t)) t) = NEW)
   \<and> (state (store e' t) = NEW
        \<longrightarrow> state (store (addThread_timeout e' t) t) = READY
          \<and> readyQueue (addThread_timeout e' t) = readyQueue e' @ [t])
   \<and> (state (store e' t) \<noteq> NEW \<longrightarrow> addThread_timeout e' t = e')"
proof -
  have basic: "state (store (addThread e t) t) = NEW"
    "arrivalTime (store (addThread e t) t) = clockTick e"
    "clockTick (addThread e t) = clockTick e"
    "readyQueue (addThread e t) = readyQueue e"
    by (simp_all add: addThread_def mapThreadToKernel_def Let_def Thread_setState_def
                 split: threading_model.splits)
  have "state (store (calls cs (addThread e t)) t) = NEW"
    if d: "detached e t" and cs: "AddThread t \<notin> set cs" "Timeout t \<notin> set cs"
  proof -
    from d have "detached (addThread e t) t"
      by (simp add: detached_def addThread_def mapThreadToKernel_def Let_def
               split: threading_model.splits)
    with basic(1) have "quiet (length (cpuCores (addThread e t))) NEW t (addThread e t)"
      by (simp add: quiet_def)
    from quiet_calls [OF this cs(1)] cs(2) show ?thesis
      by (simp add: quiet_def)
  qed
  with basic show ?thesis
    by (simp add: addThread_timeout_def moveToReady_def Thread_setState_def)
qed

theorem addThread_admits_new_until_timer_witness:
  "detached admissionStart 1
   \<and> state (store (calls [Tick, Tick, Tick] (addThread admissionStart 1)) 1) = NEW
   \<and> state (store (addThread_timeout (addThread admissionStart 1) 1) 1) = READY"
proof -
  have a: "detached admissionStart 1"
    unfolding admissionStart_eval by (simp add: detached_def)
  have b: "AddThread 1 \<notin> set [Tick, Tick, Tick]" "Timeout 1 \<notin> set [Tick, Tick, Tick]"
    by simp_all
  from addThread_admits_new_until_timer
         [of admissionStart 1 "[Tick, Tick, Tick]" "addThread admissionStart 1"] a b
  show ?thesis by simp
qed

section \<open>Round-robin preemption\<close>

lemma executeInstruction_frame:
  "quantum (store (executeInstruction e t ins) r) = quantum (store e r)
   \<and> currentInstruction (store (executeInstruction e t ins) r) = currentInstruction (store e r)
   \<and> instructions (store (executeInstruction e t ins) r) = instructions (store e r)
   \<and> scheduler (executeInstruction e t ins) = scheduler e
   \<and> length (cpuCores (executeInstruction e t ins)) = length (cpuCores e)"
  by (cases ins)
     (auto simp: executeInstruction_def blockRunning_def unblock_def moveToReady_def
                 moveToBlocked_def Thread_setState_def Let_def length_releaseCoreOf
           split: option.splits prod.splits)

lemma roundRobinStart_eval:
  "roundRobinStart =
   \<lparr>store =
      initialStore
      (Suc 0 :=
         \<lparr>thread_id = Suc 0, thread_name = ''A'', priority = 5, state = READY,
            instructions = [Compute, Compute, Compute], currentInstruction = 0,
            arrivalTime = 0, burstTime = Suc (Suc (Suc 0)), remainingTime = 3, waitTime = 0,
            turnaroundTime = 0, completionTime = 0, timeInCurrentState = 0, quantum = 0,
            kernelThreadId = Some (Suc 0)\<rparr>),
      nextId = Suc (Suc 0), threads = [Suc 0], readyQueue = [Suc 0], blockedQueue = [],
      terminatedThreads = [],
      cpuCores = [\<lparr>core_id = 0, currentThread = None, isIdle = True, totalBusyTime = 0\<rparr>],
      semaphores = \<lambda>x. None, monitors = \<lambda>x. None,
      scheduler = \<lparr>algorithm = RoundRobin, timeQuantum = 2\<rparr>, clockTick = 0, isRunning = False,
      threadingModel = OneToOne, userThreadCount = Suc 0, kernelThreadCount = Suc 0\<rparr>"
  unfolding roundRobinStart_def by (simp add: engine_defs)

lemma roundRobin_tick1:
  "call Tick roundRobinStart =
   \<lparr>store =
      initialStore
      (Suc 0 :=
         \<lparr>thread_id = Suc 0, thread_name = ''A'', priority = 5, state = RUNNING,
            instructions = [Compute, Compute, Compute], currentInstruction = 0,
            arrivalTime = 0, burstTime = Suc (Suc (Suc 0)), remainingTime = 3,
            waitTime = Suc 0, turnaroundTime = 0, completionTime = 0, timeInCurrentState = 0,
            quantum = 0, kernelThreadId = Some (Suc 0)\<rparr>),
      nextId = Suc (Suc 0), threads = [Suc 0], readyQueue = [], blockedQueue = [],
      terminatedThreads = [],
      cpuCores =
        [\<lparr>core_id = 0, currentThread = Some (Suc 0), isIdle = False, totalBusyTime = 0\<rparr>],
      semaphores = \<lambda>x. None, monitors = \<lambda>x. None,
      scheduler = \<lparr>algorithm = RoundRobin, timeQuantum = 2\<rparr>, clockTick = Suc 0,
      isRunning = False, threadingModel = OneToOne, userThreadCount = Suc 0,
      kernelThreadCount = Suc 0\<rparr>"
  unfolding roundRobinStart_eval by (simp add: engine_defs)

lemma roundRobin_tick2:
  "calls [Tick, Tick] roundRobinStart =
   \<lparr>store =
      initialStore
      (Suc 0 :=
         \<lparr>thread_id = Suc 0, thread_name = ''A'', priority = 5, state = RUNNING,
            instructions = [Compute, Compute, Compute], currentInstruction = Suc 0,
            arrivalTime = 0, burstTime = Suc (Suc (Suc 0)), remainingTime = 2,
            waitTime = Suc 0, turnaroundTime = 0, completionTime = 0,
            timeInCurrentState = Suc 0, quantum = 1, kernelThreadId = Some (Suc 0)\<rparr>),
      nextId = Suc (Suc 0), threads = [Suc 0], readyQueue = [], blockedQueue = [],
      terminatedThreads = [],
      cpuCores =
        [\<lparr>core_id = 0, currentThread = Some (Suc 0), isIdle = False, totalBusyTime = Suc 0\<rparr>],
      semaphores = \<lambda>x. None, monitors = \<lambda>x. None,
      scheduler = \<lparr>algorithm = RoundRobin, timeQuantum = 2\<rparr>, clockTick = Suc (Suc 0),
      isRunning = False, threadingModel = OneToOne, userThreadCount = Suc 0,
      kernelThreadCount = Suc 0\<rparr>"
  unfolding calls.simps roundRobin_tick1 by (simp add: engine_defs)

text \<open>
  C4.  Take a busy core \<open>i\<close> whose thread \<open>t\<close> has at least two instructions left (it
  does not complete in this tick), and let \<open>e1\<close> be the engine after the thread's
  instruction has been executed, with \<open>t\<close> still on core \<open>i\<close> (it did not block).  The
  instruction has incremented the quantum counter by one.  If the algorithm is
  round-robin and the incremented counter has reached the configured quantum, the
  step releases the core, resets the counter to 0 and appends the thread to the ready
  queue in state READY; in every other case (round-robin with the counter still below
  the quantum, or any other algorithm) the step ends with \<open>e1\<close>, the thread on its
  core.  Under an algorithm other than round-robin the preemption predicate is false
  for every thread.  The counter starts at 0: the dispatch of a thread to an idle core
  resets it.  So a thread that keeps running has a counter equal to the number of
  ticks since its dispatch, and round-robin preempts it in the tick in which that
  number reaches the quantum, not before.
\<close>

theorem round_robin_preempts_at_quantum:
  assumes "i < length (cpuCores e)"
    and "currentThread (cpuCores e ! i) = Some t" and "\<not> isIdle (cpuCores e ! i)"
    and "currentInstruction (store e t) + 1 < length (instructions (store e t))"
    and "e1 = snd (runInstruction (e\<lparr> cpuCores := (cpuCores e)[i := CPUCore_tick (cpuCores e ! i)] \<rparr>) t)"
    and "currentThread (cpuCores e1 ! i) = Some t"
  shows "quantum (store e1 t) = quantum (store e t) + 1
       \<and> (if algorithm (scheduler e) = RoundRobin
              \<and> timeQuantum (scheduler e) \<le> quantum (store e t) + 1
           then \<exists>e2. coreStep e i = Inr e2
                  \<and> currentThread (cpuCores e2 ! i) = None \<and> isIdle (cpuCores e2 ! i)
                  \<and> quantum (store e2 t) = 0 \<and> state (store e2 t) = READY
                  \<and> readyQueue e2 = readyQueue e1 @ [t]
           else coreStep e i = Inr e1)
       \<and> (algorithm (scheduler e) \<noteq> RoundRobin
            \<longrightarrow> \<not> Scheduler_shouldPreempt (scheduler e) th)
       \<and> (j < length (cpuCores d) \<and> isIdle (cpuCores d ! j) \<and> readyQueue d \<noteq> []
            \<and> Scheduler_selectNextThread (scheduler d) (store d) (readyQueue d) = (Some u, q)
            \<longrightarrow> currentThread (cpuCores (dispatchStep d j) ! j) = Some u
              \<and> quantum (store (dispatchStep d j) u) = 0
              \<and> state (store (dispatchStep d j) u) = RUNNING
              \<and> readyQueue (dispatchStep d j) = q)"
proof -
  let ?e0 = "e\<lparr> cpuCores := (cpuCores e)[i := CPUCore_tick (cpuCores e ! i)] \<rparr>"
  let ?th = "(store e t)\<lparr> currentInstruction := currentInstruction (store e t) + 1,
                           remainingTime := remainingTime (store e t) - 1,
                           quantum := quantum (store e t) + 1 \<rparr>"
  let ?ins = "instructions (store e t) ! currentInstruction (store e t)"
  have run: "runInstruction ?e0 t
               = (False, executeInstruction (?e0\<lparr> store := (store e)(t := ?th) \<rparr>) t ?ins)"
    using assms(4) by (simp add: runInstruction_def Thread_execute_def)
  then have e1: "e1 = executeInstruction (?e0\<lparr> store := (store e)(t := ?th) \<rparr>) t ?ins"
    using assms(5) by simp
  have q: "quantum (store e1 t) = quantum (store e t) + 1"
    and c: "\<not> Thread_isComplete (store e1 t)"
    and s: "scheduler e1 = scheduler e"
    using assms(4) unfolding e1 Thread_isComplete_def
    by (simp_all add: executeInstruction_frame)
  have len: "i < length (cpuCores e1)"
    using assms(1) unfolding e1 by (simp add: executeInstruction_frame)
  have core: "currentThread (cpuCores ?e0 ! i) = Some t" "\<not> isIdle (cpuCores ?e0 ! i)"
    using assms(1,2,3) by (simp_all add: CPUCore_tick_def)
  have step: "coreStep e i = afterInstruction e1 i t False"
    using core run assms(5) by (simp add: coreStep_def Let_def)
  have dispatch:
    "currentThread (cpuCores (dispatchStep d j) ! j) = Some u
     \<and> quantum (store (dispatchStep d j) u) = 0
     \<and> state (store (dispatchStep d j) u) = RUNNING
     \<and> readyQueue (dispatchStep d j) = q"
    if "j < length (cpuCores d)" "isIdle (cpuCores d ! j)" "readyQueue d \<noteq> []"
      "Scheduler_selectNextThread (scheduler d) (store d) (readyQueue d) = (Some u, q)"
    using that
    by (simp add: dispatchStep_def CPUCore_assignThread_def Thread_setState_def Let_def)
  have "quantum (store e1 t) = quantum (store e t) + 1
      \<and> (if algorithm (scheduler e) = RoundRobin
             \<and> timeQuantum (scheduler e) \<le> quantum (store e t) + 1
          then \<exists>e2. coreStep e i = Inr e2
                 \<and> currentThread (cpuCores e2 ! i) = None \<and> isIdle (cpuCores e2 ! i)
                 \<and> quantum (store e2 t) = 0 \<and> state (store e2 t) = READY
                 \<and> readyQueue e2 = readyQueue e1 @ [t]
          else coreStep e i = Inr e1)
      \<and> (algorithm (scheduler e) \<noteq> RoundRobin
           \<longrightarrow> \<not> Scheduler_shouldPreempt (scheduler e) th)"
    using q c s assms(6) len
    by (simp add: step afterInstruction_def Scheduler_shouldPreempt_def CPUCore_releaseThread_def
                  moveToReady_def Thread_setState_def Let_def)
  with dispatch show ?thesis by blast
qed

theorem round_robin_preempts_at_quantum_witness:
  "quantum (store (calls [Tick, Tick] roundRobinStart) 1) = 1
   \<and> scheduler (calls [Tick, Tick] roundRobinStart) = \<lparr> algorithm = RoundRobin, timeQuantum = 2 \<rparr>
   \<and> map currentThread (cpuCores (calls [Tick, Tick] roundRobinStart)) = [Some 1]
   \<and> (\<exists>e2. coreStep (calls [Tick, Tick] roundRobinStart) 0 = Inr e2
          \<and> currentThread (cpuCores e2 ! 0) = None \<and> isIdle (cpuCores e2 ! 0)
          \<and> quantum (store e2 1) = 0 \<and> state (store e2 1) = READY \<and> readyQueue e2 = [1])
   \<and> quantum (store (calls [Tick] roundRobinStart) 1) = 0
   \<and> (\<exists>e1. coreStep (calls [Tick] roundRobinStart) 0 = Inr e1
          \<and> currentThread (cpuCores e1 ! 0) = Some 1 \<and> quantum (store e1 1) = 1)
   \<and> readyQueue roundRobinStart = [1]
   \<and> currentThread (cpuCores (dispatchStep roundRobinStart 0) ! 0) = Some 1
   \<and> quantum (store (dispatchStep roundRobinStart 0) 1) = 0"
proof -
  let ?a = "calls [Tick, Tick] roundRobinStart"
  let ?a1 = "snd (runInstruction (?a\<lparr> cpuCores := (cpuCores ?a)[0 := CPUCore_tick (cpuCores ?a ! 0)] \<rparr>) 1)"
  have a: "0 < length (cpuCores ?a)" "currentThread (cpuCores ?a ! 0) = Some 1"
    "\<not> isIdle (cpuCores ?a ! 0)"
    "currentInstruction (store ?a 1) + 1 < length (instructions (store ?a 1))"
    unfolding roundRobin_tick2 by simp_all
  have a1: "currentThread (cpuCores ?a1 ! 0) = Some 1" "readyQueue ?a1 = []"
    unfolding roundRobin_tick2 by (simp_all add: engine_defs)
  have a2: "quantum (store ?a 1) = 1"
    "scheduler ?a = \<lparr> algorithm = RoundRobin, timeQuantum = 2 \<rparr>"
    "map currentThread (cpuCores ?a) = [Some 1]"
    unfolding roundRobin_tick2 by simp_all
  let ?b = "calls [Tick] roundRobinStart"
  let ?b1 = "snd (runInstruction (?b\<lparr> cpuCores := (cpuCores ?b)[0 := CPUCore_tick (cpuCores ?b ! 0)] \<rparr>) 1)"
  have b: "0 < length (cpuCores ?b)" "currentThread (cpuCores ?b ! 0) = Some 1"
    "\<not> isIdle (cpuCores ?b ! 0)"
    "currentInstruction (store ?b 1) + 1 < length (instructions (store ?b 1))"
    unfolding calls.simps roundRobin_tick1 by simp_all
  have b1: "currentThread (cpuCores ?b1 ! 0) = Some 1"
    unfolding calls.simps roundRobin_tick1 by (simp add: engine_defs)
  have b2: "quantum (store ?b 1) = 0"
    "scheduler ?b = \<lparr> algorithm = RoundRobin, timeQuantum = 2 \<rparr>"
    unfolding calls.simps roundRobin_tick1 by simp_all
  have d: "0 < length (cpuCores roundRobinStart)" "isIdle (cpuCores roundRobinStart ! 0)"
    "readyQueue roundRobinStart = [1]"
    "Scheduler_selectNextThread (scheduler roundRobinStart) (store roundRobinStart)
       (readyQueue roundRobinStart) = (Some 1, [])"
    unfolding roundRobinStart_eval by (simp_all add: Scheduler_selectNextThread_def)
  from round_robin_preempts_at_quantum [OF a refl a1(1), of _ 0 roundRobinStart 1 "[]"]
       round_robin_preempts_at_quantum [OF b refl b1]
       a1 a2 b1 b2 d
  show ?thesis by simp
qed

end
